theory Spec2Isabelle
  imports Complex_Main "HOL-Library.Word"
begin

section \<open>The media pipeline of stereoplayer\<close>

text \<open>
  The source file \<^verbatim>\<open>src/js/opencv-wrapper.js\<close> holds two definitions of the class
  \<^verbatim>\<open>AVPipeline\<close>: the first (lines 53 to 517) extends \<^verbatim>\<open>EventEmitter\<close>, paces its
  captures and evicts the oldest frame from a full ring buffer; the second (lines 525 to
  1160) extends \<^verbatim>\<open>MediaPipeline\<close>, converts each capture with OpenCV and has
  \<^verbatim>\<open>seek\<close>, \<^verbatim>\<open>getCurrentTime\<close> and \<^verbatim>\<open>dispose\<close>. A function of the first class carries
  the suffix \<open>_A\<close>, one of the second class the suffix \<open>_B\<close>, where both classes define
  it. One record holds the fields an object of either class can have; which methods an
  object has depends on its class (\<open>has_method\<close>, below).

  Numbers of JavaScript are modelled as \<open>nat\<close> where the code uses them as sizes,
  \<open>int\<close> for the frame counter (which the code decrements without a lower bound) and
  \<open>real\<close> for times; \<^verbatim>\<open>undefined\<close> and \<^verbatim>\<open>null\<close> are \<open>None\<close>.
\<close>

subsection \<open>Frames, target formats, ring buffers\<close>

type_synonym byte = "8 word"

record dims =
  width :: nat
  height :: nat

text \<open>\<^verbatim>\<open>ImageData\<close> of the canvas: \<^verbatim>\<open>{data, width, height}\<close>.\<close>

record image_data = dims +
  data :: "byte list"

text \<open>
  The payload of a \<^verbatim>\<open>videoFrame\<close> event. The first class sets \<^verbatim>\<open>timestamp\<close>
  (line 309), the second leaves it out (lines 923 to 927). \<open>data\<close> is a typed array, a
  view on an \<^verbatim>\<open>ArrayBuffer\<close>: \<open>buffer\<close> is the bytes of that buffer,
  \<^verbatim>\<open>frame.data.buffer\<close>, which are the bytes of \<open>data\<close> when the array owns its buffer
  and more when it is a view on a part of a larger one.
\<close>

record frame = image_data +
  timestamp :: "real option"
  buffer :: "byte list"

text \<open>\<^verbatim>\<open>frame.data.length\<close>.\<close>

definition byteLength :: "frame \<Rightarrow> nat" where
  "byteLength fr = length (data fr)"

text \<open>
  \<^verbatim>\<open>textureRequirements\<close> (lines 68 to 73) and \<^verbatim>\<open>mpegTextureInfo\<close> have the same four
  fields.
\<close>

record target_spec = dims +
  format :: string
  frameSize :: nat

text \<open>
  Modelled from the spec: the code has no function that gives the bytes a pixel of a
  format takes, and never tests a target. Section 3 of the spec states the invariant of a
  target: \<^verbatim>\<open>frameByteSize == width*height*bytesPerPixel(format)\<close>. The formats the source
  names are \<^verbatim>\<open>'RGBA'\<close>, four bytes (line 72: \<^verbatim>\<open>640 * 360 * 4\<close>), and \<^verbatim>\<open>'RGB'\<close>, three
  (line 856).
\<close>

definition bytesPerPixel :: "string \<Rightarrow> nat option" where
  "bytesPerPixel fmt =
     (if fmt = ''RGBA'' then Some 4 else if fmt = ''RGB'' then Some 3 else None)"

definition valid_TargetSpec :: "target_spec \<Rightarrow> bool" where
  "valid_TargetSpec t =
     (width t \<noteq> 0 \<and> height t \<noteq> 0
      \<and> (case bytesPerPixel (format t) of
            None \<Rightarrow> False
          | Some n \<Rightarrow> frameSize t = width t * height t * n))"

text \<open>
  Modelled from the spec: the ring buffer class is not under src/. Section 6 of the spec
  gives its contract: \<^verbatim>\<open>push(bytes) -> bytesWritten\<close>, \<^verbatim>\<open>pop(destinationBuffer) -> bytesRead\<close>,
  \<^verbatim>\<open>available_write()\<close>, \<^verbatim>\<open>capacity\<close>, and the fields \<^verbatim>\<open>count\<close> and \<^verbatim>\<open>maxFrames\<close>
  that the caller keeps. \<open>storage\<close> is the bytes that can be read, oldest first.
\<close>

record ring_buffer =
  storage :: "byte list"
  capacity :: nat
  count :: int
  maxFrames :: int

definition available_write :: "ring_buffer \<Rightarrow> nat" where
  "available_write rb = capacity rb - length (storage rb)"

text \<open>\<open>push\<close> writes as many bytes as fit and returns how many it wrote.\<close>

definition push :: "byte list \<Rightarrow> ring_buffer \<Rightarrow> nat \<times> ring_buffer" where
  "push bytes rb =
     (let n = min (length bytes) (available_write rb)
      in (n, rb\<lparr>storage := storage rb @ take n bytes\<rparr>))"

text \<open>
  \<open>pop\<close> fills a destination of \<open>n\<close> bytes from the read side and returns the bytes
  read.
\<close>

definition pop :: "nat \<Rightarrow> ring_buffer \<Rightarrow> byte list \<times> ring_buffer" where
  "pop n rb = (take n (storage rb), rb\<lparr>storage := drop n (storage rb)\<rparr>)"

text \<open>
  A video source of the texture extension. The first class reads its field
  \<^verbatim>\<open>circularBuffer\<close> (line 397), the second its field \<^verbatim>\<open>bufferCircular\<close> (line 996).
\<close>

record video_source =
  circularBuffer :: "ring_buffer option"
  bufferCircular :: "ring_buffer option"

record texture =
  mpegTextureInfo :: target_spec

record texture_extension =
  textures :: "nat \<rightharpoonup> texture"
  sources :: "nat \<rightharpoonup> video_source"

subsection \<open>The browser's objects\<close>

text \<open>
  The video element, as far as the pipeline reads it. \<open>totalVideoFrames\<close> is
  \<^verbatim>\<open>getVideoPlaybackQuality?.()?.totalVideoFrames\<close>, \<open>None\<close> where the browser has no
  such method.
\<close>

record video_element =
  paused :: bool
  ended :: bool
  readyState :: nat
  currentTime :: real
  videoWidth :: nat
  videoHeight :: nat
  totalVideoFrames :: "nat option"
  playbackRate :: real

record video_destination =
  canvas :: "dims option"
  context2d :: "unit option"
  texture_slot :: "unit option"

text \<open>The variables the timer callback of the first class closes over (lines 188 to 190).\<close>

record pacing =
  targetInterval :: real
  lastProcessTime :: real
  frameDelay :: real

text \<open>
  A running \<^verbatim>\<open>setInterval\<close> timer: its period in milliseconds, and for the first
  class the variables of its callback.
\<close>

datatype timer = PacedInterval real pacing | PlainInterval real

text \<open>
  The listeners of the \<^verbatim>\<open>videoFrame\<close> event. \<open>FrameHandler\<close> is the closure of lines
  391 to 430 over \<^verbatim>\<open>sourceId\<close> and \<^verbatim>\<open>mpegInfo\<close>; \<open>TextureListener\<close> is the arrow function
  of lines 988 to 1047, which reads the fields of the pipeline when it runs.
\<close>

datatype listener = FrameHandler nat target_spec | TextureListener

text \<open>Calls into the browser and the streaming player that leave no trace in a field.\<close>

datatype effect = ClearInterval | DashReset | VideoRemove | AudioClose | OverlayRemove

record pipeline =
  dashPlayer :: "unit option"
  videoElement :: "video_element option"
  audioContext :: "unit option"
  isInitialized :: bool
  videoProcessingInterval :: "timer option"
  videoSources :: "nat \<rightharpoonup> video_source"
  textureRequirements :: target_spec
  videoDestination :: "video_destination option"
  lastFrameTime :: "real option"
  videoSource :: "video_source option"
  targetWidth :: "nat option"
  targetHeight :: "nat option"
  targetFormat :: "string option"
  this_frameSize :: "nat option"
  playOverlay :: "bool option"
  playButton :: "unit option"
  listeners :: "listener list"
  effects :: "effect list"

datatype error =
    TextureNotFound nat
  | VideoSourceNotFound nat
  | TargetDimensionsNotFound
  | TypeError
  | NotAllowedError
  | DashInitializationTimeout
  | VideoMetadataTimeout

text \<open>
  How a method ends: it returns, it throws, or (an \<^verbatim>\<open>async\<close> method) it waits for an
  event that never comes. In each case the fields it has assigned keep their values.
\<close>

datatype outcome = Returned pipeline | Threw error pipeline | Pending pipeline

definition state_of :: "outcome \<Rightarrow> pipeline" where
  "state_of r = (case r of Returned pl \<Rightarrow> pl | Threw e pl \<Rightarrow> pl | Pending pl \<Rightarrow> pl)"

definition returns :: "outcome \<Rightarrow> bool" where
  "returns r = (case r of Returned pl \<Rightarrow> True | Threw e pl \<Rightarrow> False | Pending pl \<Rightarrow> False)"

subsection \<open>Admission into the ring buffer\<close>

text \<open>
  The body of the \<^verbatim>\<open>try\<close> block of the frame handler (lines 409 to 425). The ring
  buffer as modelled never throws, so the \<^verbatim>\<open>catch\<close> of line 426 has no branch here.
\<close>

definition admit :: "byte list \<Rightarrow> ring_buffer \<Rightarrow> ring_buffer" where
  "admit frameData cb =
     (let cb1 = (if count cb \<ge> maxFrames cb
                 then (snd (pop (length frameData) cb))\<lparr>count := count cb - 1\<rparr>
                 else cb);
          cb2 = snd (push frameData cb1)
      in cb2\<lparr>count := count cb2 + 1\<rparr>)"

text \<open>The operator \<^verbatim>\<open>!==\<close> of lines 400, 775, 776 and 999.\<close>

definition strict_neq :: "'a \<Rightarrow> 'a \<Rightarrow> bool" where
  "strict_neq a b = (a \<noteq> b)"

text \<open>\<^verbatim>\<open>frameHandler\<close>, lines 391 to 430.\<close>

definition frameHandler_A :: "nat \<Rightarrow> target_spec \<Rightarrow> frame \<Rightarrow> pipeline \<Rightarrow> pipeline" where
  "frameHandler_A sourceId mpegInfo fr pl =
     (case videoSources pl sourceId of
        None \<Rightarrow> pl
      | Some vs \<Rightarrow>
          (case circularBuffer vs of
             None \<Rightarrow> pl
           | Some cb \<Rightarrow>
               if strict_neq (width fr) (width mpegInfo) \<or> strict_neq (height fr) (height mpegInfo)
               then pl
               else pl\<lparr>videoSources := (videoSources pl)
                      (sourceId \<mapsto> vs\<lparr>circularBuffer := Some (admit (data fr) cb)\<rparr>)\<rparr>))"

text \<open>
  The listener of the second class, lines 988 to 1047. It has no frame counter; it
  compares the length of the payload with \<^verbatim>\<open>targetWidth * targetHeight * 4\<close>. The payload
  is \<^verbatim>\<open>new Uint8Array(frame.data.buffer)\<close> (line 1006): the whole buffer behind the data.
\<close>

definition textureListener_B :: "frame \<Rightarrow> pipeline \<Rightarrow> pipeline" where
  "textureListener_B fr pl =
     (case videoSource pl of
        None \<Rightarrow> pl
      | Some vs \<Rightarrow>
          (case bufferCircular vs of
             None \<Rightarrow> pl
           | Some bc \<Rightarrow>
               if strict_neq (Some (width fr)) (targetWidth pl)
                  \<or> strict_neq (Some (height fr)) (targetHeight pl)
               then pl
               else (let frameData = buffer fr;
                         expectedSize = the (targetWidth pl) * the (targetHeight pl) * 4
                     in if length frameData \<noteq> expectedSize then pl
                        else pl\<lparr>videoSource :=
                               Some (vs\<lparr>bufferCircular := Some (snd (push frameData bc))\<rparr>)\<rparr>)))"

text \<open>
  Modelled from the spec: \<^verbatim>\<open>EventEmitter\<close> and \<^verbatim>\<open>MediaPipeline\<close> are imported from
  files that are not under src/. By section 9 of the spec \<^verbatim>\<open>emit\<close> calls the registered
  listeners one after the other, in the order of their registration.
\<close>

definition callListener :: "listener \<Rightarrow> frame \<Rightarrow> pipeline \<Rightarrow> pipeline" where
  "callListener l fr pl =
     (case l of
        FrameHandler sourceId mpegInfo \<Rightarrow> frameHandler_A sourceId mpegInfo fr pl
      | TextureListener \<Rightarrow> textureListener_B fr pl)"

definition emit_videoFrame :: "frame \<Rightarrow> pipeline \<Rightarrow> pipeline" where
  "emit_videoFrame fr pl = fold (\<lambda>l. callListener l fr) (listeners pl) pl"

definition on_videoFrame :: "listener \<Rightarrow> pipeline \<Rightarrow> pipeline" where
  "on_videoFrame l pl = pl\<lparr>listeners := listeners pl @ [l]\<rparr>"

text \<open>The ring buffer bound to a source id, as the frame handler finds it.\<close>

definition binding :: "nat \<Rightarrow> pipeline \<Rightarrow> ring_buffer option" where
  "binding sourceId pl =
     (case videoSources pl sourceId of None \<Rightarrow> None | Some vs \<Rightarrow> circularBuffer vs)"

subsection \<open>The canvas\<close>

type_synonym rgba = "byte \<times> byte \<times> byte \<times> byte"

text \<open>
  What \<^verbatim>\<open>drawImage(video, dx, dy, dw, dh)\<close> leaves on the canvas is the browser's work,
  not the repository's: a \<open>renderer\<close> gives the colour of the canvas pixel \<open>(x, y)\<close> after
  the video has been drawn into the rectangle \<open>dx, dy, dw, dh\<close>.
\<close>

type_synonym renderer = "video_element \<Rightarrow> real \<Rightarrow> real \<Rightarrow> real \<Rightarrow> real \<Rightarrow> nat \<Rightarrow> nat \<Rightarrow> rgba"

definition bytes_of :: "rgba \<Rightarrow> byte list" where
  "bytes_of p = (case p of (r, g, b, a) \<Rightarrow> [r, g, b, a])"

text \<open>The bytes of a canvas of \<open>sw\<close> by \<open>sh\<close> pixels: four a pixel, row by row.\<close>

definition raster :: "(nat \<Rightarrow> nat \<Rightarrow> rgba) \<Rightarrow> nat \<Rightarrow> nat \<Rightarrow> byte list" where
  "raster px sw sh = concat (map (\<lambda>i. bytes_of (px (i mod sw) (i div sw))) [0..<sw * sh])"

text \<open>
  \<^verbatim>\<open>getImageData(0, 0, sw, sh)\<close>. The browser throws an \<^verbatim>\<open>IndexSizeError\<close> when \<open>sw\<close>
  or \<open>sh\<close> is zero: \<open>None\<close>.
\<close>

definition getImageData :: "(nat \<Rightarrow> nat \<Rightarrow> rgba) \<Rightarrow> nat \<Rightarrow> nat \<Rightarrow> image_data option" where
  "getImageData px sw sh =
     (if sw = 0 \<or> sh = 0 then None
      else Some \<lparr>width = sw, height = sh, data = raster px sw sh\<rparr>)"

subsection \<open>Capture, first class\<close>

text \<open>
  \<^verbatim>\<open>this._lastFrameTime && ...\<close> (line 245): \<^verbatim>\<open>undefined\<close> and \<open>0\<close> are both
  falsy.
\<close>

definition truthy :: "real option \<Rightarrow> bool" where
  "truthy t = (case t of None \<Rightarrow> False | Some x \<Rightarrow> x \<noteq> 0)"

text \<open>
  Lines 272 to 289: the rectangle \<open>(offsetX, offsetY, drawWidth, drawHeight)\<close> the video
  is drawn into.
\<close>

definition letterbox :: "nat \<Rightarrow> nat \<Rightarrow> nat \<Rightarrow> nat \<Rightarrow> real \<times> real \<times> real \<times> real" where
  "letterbox vw vh tw th =
     (let sourceAspect = real vw / real vh;
          targetAspect = real tw / real th
      in if sourceAspect > targetAspect
         then (let drawHeight = real th; drawWidth = drawHeight * sourceAspect
               in ((real tw - drawWidth) / 2, 0, drawWidth, drawHeight))
         else (let drawWidth = real tw; drawHeight = drawWidth / sourceAspect
               in (0, (real th - drawHeight) / 2, drawWidth, drawHeight)))"

text \<open>
  The \<^verbatim>\<open>try\<close> block of \<^verbatim>\<open>processVideoFrame\<close> in the first class, lines 262 to 316.
  Every exception inside it (a missing canvas or context, a read of zero width or height)
  ends in the \<^verbatim>\<open>catch\<close> of line 314 and emits nothing. With a zero target size the
  read throws, so the rectangle computed before it is not used.
\<close>

definition drawAndEmit_A :: "renderer \<Rightarrow> video_element \<Rightarrow> pipeline \<Rightarrow> frame option \<times> pipeline" where
  "drawAndEmit_A draw v pl =
     (let tw = width (textureRequirements pl);
          th = height (textureRequirements pl)
      in case videoDestination pl of
           None \<Rightarrow> (None, pl)
         | Some vd \<Rightarrow>
             (case canvas vd of
                None \<Rightarrow> (None, pl)
              | Some c \<Rightarrow>
                  (let pl2 = pl\<lparr>videoDestination :=
                               Some (vd\<lparr>canvas := Some \<lparr>width = tw, height = th\<rparr>\<rparr>)\<rparr>
                   in case context2d vd of
                        None \<Rightarrow> (None, pl2)
                      | Some u \<Rightarrow>
                          (case letterbox (videoWidth v) (videoHeight v) tw th of
                             (offsetX, offsetY, drawWidth, drawHeight) \<Rightarrow>
                               (case getImageData (draw v offsetX offsetY drawWidth drawHeight) tw th of
                                  None \<Rightarrow> (None, pl2)
                                | Some imageData \<Rightarrow>
                                    (let fr = \<lparr>width = width imageData,
                                               height = height imageData,
                                               data = data imageData,
                                               timestamp = Some (currentTime v),
                                               buffer = data imageData\<rparr>
                                     in (Some fr, emit_videoFrame fr pl2)))))))"

text \<open>
  The constant \<^verbatim>\<open>1/60\<close> of line 246 is a double: the double nearest to one sixtieth,
  which is a little less than it. The difference of the two source times is taken as it
  is, without the rounding of the double subtraction.
\<close>

definition one_sixtieth :: real where
  "one_sixtieth = 4803839602528529 / 288230376151711744"

text \<open>
  \<^verbatim>\<open>processVideoFrame\<close> of the first class, lines 226 to 317: the frame it emits, if
  any, and the pipeline after the listeners have run.
\<close>

definition processVideoFrame_A :: "renderer \<Rightarrow> pipeline \<Rightarrow> frame option \<times> pipeline" where
  "processVideoFrame_A draw pl =
     (case videoElement pl of
        None \<Rightarrow> (None, pl)
      | Some v \<Rightarrow>
          if paused v \<or> ended v then (None, pl)
          else if truthy (lastFrameTime pl) \<and> currentTime v - the (lastFrameTime pl) < one_sixtieth
          then (None, pl)
          else (let pl1 = pl\<lparr>lastFrameTime := Some (currentTime v)\<rparr>
                in if videoWidth v = 0 \<or> videoHeight v = 0 then (None, pl1)
                   else drawAndEmit_A draw v pl1))"

subsection \<open>Pacing, first class\<close>

text \<open>
  Line 181: \<^verbatim>\<open>totalVideoFrames / currentTime || 30\<close>, and line 188:
  \<^verbatim>\<open>1000 / frameRate\<close>. A quotient that is \<^verbatim>\<open>NaN\<close> (no playback quality, or 0 / 0) or
  zero is falsy and gives 30 frames a second; a positive count over the time 0 is
  \<^verbatim>\<open>Infinity\<close>, which is truthy and gives the interval 0.
\<close>

definition targetInterval_of :: "video_element \<Rightarrow> real" where
  "targetInterval_of v =
     (case totalVideoFrames v of
        None \<Rightarrow> 1000 / 30
      | Some n \<Rightarrow>
          if currentTime v = 0 then (if n = 0 then 1000 / 30 else 0)
          else if n = 0 then 1000 / 30
          else 1000 / (real n / currentTime v))"

text \<open>The period handed to \<^verbatim>\<open>setInterval\<close>, line 206.\<close>

definition intervalPeriod :: "real \<Rightarrow> real" where
  "intervalPeriod T = min (T / 2) (1667 / 100)"

text \<open>
  One run of the timer callback, lines 192 to 206, on its own variables: \<open>now\<close> is
  \<^verbatim>\<open>performance.now()\<close> at its start, \<open>processTime\<close> the time the capture is measured
  to take if it is invoked. The result says whether the capture was invoked.
\<close>

definition pacingTick :: "real \<Rightarrow> real \<Rightarrow> pacing \<Rightarrow> bool \<times> pacing" where
  "pacingTick now processTime pc =
     (let elapsed = now - lastProcessTime pc
      in if elapsed \<ge> targetInterval pc - frameDelay pc
         then (True, pc\<lparr>frameDelay := max 0 (processTime - (targetInterval pc - elapsed)),
                        lastProcessTime := now\<rparr>)
         else (False, pc))"

text \<open>\<^verbatim>\<open>startVideoProcessing\<close> of the first class, lines 147 to 217, called at time \<open>now\<close>.\<close>

definition startVideoProcessing_A :: "real \<Rightarrow> pipeline \<Rightarrow> outcome" where
  "startVideoProcessing_A now pl =
     (case videoProcessingInterval pl of
        Some t \<Rightarrow> Returned pl
      | None \<Rightarrow>
          (case videoElement pl of
             None \<Rightarrow> Threw TypeError pl
           | Some v \<Rightarrow>
               if readyState v \<ge> 2
               then (let T = targetInterval_of v
                     in Returned (pl\<lparr>videoProcessingInterval :=
                          Some (PacedInterval (intervalPeriod T)
                                  \<lparr>targetInterval = T, lastProcessTime = now, frameDelay = 0\<rparr>)\<rparr>))
               else Returned pl))"

text \<open>\<^verbatim>\<open>stopVideoProcessing\<close>, lines 219 to 224 and 740 to 747.\<close>

definition stopVideoProcessing :: "pipeline \<Rightarrow> pipeline" where
  "stopVideoProcessing pl =
     (case videoProcessingInterval pl of
        None \<Rightarrow> pl
      | Some t \<Rightarrow> pl\<lparr>videoProcessingInterval := None, effects := effects pl @ [ClearInterval]\<rparr>)"

text \<open>
  The callback of the timer of the first class, lines 192 to 206, with the capture it
  invokes. The variables of the callback are written back after the capture.
\<close>

definition timerCallback_A :: "renderer \<Rightarrow> real \<Rightarrow> real \<Rightarrow> pipeline \<Rightarrow> frame option \<times> pipeline" where
  "timerCallback_A draw now processTime pl =
     (case videoProcessingInterval pl of
        Some (PacedInterval p pc) \<Rightarrow>
          (case pacingTick now processTime pc of
             (invoked, pc') \<Rightarrow>
               if invoked
               then (case processVideoFrame_A draw pl of
                       (f, pl1) \<Rightarrow> (f, pl1\<lparr>videoProcessingInterval := Some (PacedInterval p pc')\<rparr>))
               else (None, pl))
      | Some (PlainInterval p) \<Rightarrow> (None, pl)
      | None \<Rightarrow> (None, pl))"

text \<open>
  A timer's run on the variables of its callback: the ticks are pairs of the clock reading
  at the start of the callback and the time the capture takes if it is invoked; the result
  says for each tick whether the capture was invoked.
\<close>

fun pacingRun :: "(real \<times> real) list \<Rightarrow> pacing \<Rightarrow> bool list \<times> pacing" where
  "pacingRun [] pc = ([], pc)"
| "pacingRun ((now, processTime) # ticks) pc =
     (case pacingTick now processTime pc of
        (invoked, pc1) \<Rightarrow>
          (case pacingRun ticks pc1 of (rest, pc2) \<Rightarrow> (invoked # rest, pc2)))"

text \<open>
  The ticks a single thread can see. The callback reads the clock at its start (line
  193) and around the capture (lines 198 and 202), the clock does not go back, and the
  next callback starts after this one has returned: no earlier than \<open>now + processTime\<close>
  when the capture was invoked, no earlier than \<open>now\<close> otherwise.
\<close>

fun sequential :: "pacing \<Rightarrow> (real \<times> real) list \<Rightarrow> bool" where
  "sequential pc [] = True"
| "sequential pc [(now, processTime)] = (0 \<le> processTime)"
| "sequential pc ((now, processTime) # (now', processTime') # ticks) =
     (0 \<le> processTime
      \<and> (if fst (pacingTick now processTime pc) then now + processTime else now) \<le> now'
      \<and> sequential (snd (pacingTick now processTime pc)) ((now', processTime') # ticks))"

subsection \<open>Conversion, second class\<close>

text \<open>
  Modelled from the spec: the vision library (\<^verbatim>\<open>cv\<close>, OpenCV.js) is not under src/.
  Section 4.2 of the spec names its three steps: strip the alpha channel, resize with
  linear interpolation to the target width and height, expand to four channels again.
  A matrix is its shape and its bytes. \<^verbatim>\<open>cv.resize\<close> takes the interpolation to use as
  its last argument (\<^verbatim>\<open>cv.INTER_LINEAR\<close> at line 878); the arithmetic of each
  interpolation is the library's, a parameter of type \<open>resizer\<close>: for an interpolation
  flag, the byte of channel \<open>c\<close> at the pixel \<open>(x, y)\<close> of the resized matrix.
\<close>

record mat =
  rows :: nat
  cols :: nat
  channels :: nat
  mat_data :: "byte list"

datatype interpolation_flag = INTER_NEAREST | INTER_LINEAR | INTER_CUBIC | INTER_AREA

type_synonym interpolation = "mat \<Rightarrow> nat \<Rightarrow> nat \<Rightarrow> nat \<Rightarrow> nat \<Rightarrow> nat \<Rightarrow> byte"

type_synonym resizer = "interpolation_flag \<Rightarrow> interpolation"

definition matFromImageData :: "image_data \<Rightarrow> mat" where
  "matFromImageData img =
     \<lparr>rows = height img, cols = width img, channels = 4, mat_data = data img\<rparr>"

fun strip_alpha :: "byte list \<Rightarrow> byte list" where
  "strip_alpha (r # g # b # a # rest) = r # g # b # strip_alpha rest"
| "strip_alpha rest = []"

fun add_alpha :: "byte list \<Rightarrow> byte list" where
  "add_alpha (r # g # b # rest) = r # g # b # 255 # add_alpha rest"
| "add_alpha rest = []"

definition cvtColor_RGBA2RGB :: "mat \<Rightarrow> mat" where
  "cvtColor_RGBA2RGB m =
     \<lparr>rows = rows m, cols = cols m, channels = 3, mat_data = strip_alpha (mat_data m)\<rparr>"

definition cvtColor_RGB2RGBA :: "mat \<Rightarrow> mat" where
  "cvtColor_RGB2RGBA m =
     \<lparr>rows = rows m, cols = cols m, channels = 4, mat_data = add_alpha (mat_data m)\<rparr>"

definition resample :: "interpolation \<Rightarrow> mat \<Rightarrow> nat \<Rightarrow> nat \<Rightarrow> byte list" where
  "resample interp m w h =
     concat (map (\<lambda>i. map (interp m w h (i mod w) (i div w)) [0..<channels m]) [0..<w * h])"

text \<open>
  \<^verbatim>\<open>cv.resize(src, dst, new cv.Size(w, h), 0, 0, flag)\<close>: with a size given, the two
  scale factors, both 0 at line 878, are not used.
\<close>

definition resize :: "resizer \<Rightarrow> mat \<Rightarrow> nat \<Rightarrow> nat \<Rightarrow> interpolation_flag \<Rightarrow> mat" where
  "resize cv m w h flag =
     \<lparr>rows = h, cols = w, channels = channels m, mat_data = resample (cv flag) m w h\<rparr>"

text \<open>
  The matrices of one capture. A \<^verbatim>\<open>cv.Mat\<close> lives on the library's heap until its
  \<^verbatim>\<open>delete()\<close> is called; the list holds those that are allocated and not deleted.
\<close>

datatype mat_id = Src | Dst | Resized | Rgba

definition new_mat :: "mat_id \<Rightarrow> mat_id list \<Rightarrow> mat_id list" where
  "new_mat m allocated = allocated @ [m]"

definition delete_mat :: "mat_id \<Rightarrow> mat_id list \<Rightarrow> mat_id list" where
  "delete_mat m allocated = removeAll m allocated"

text \<open>
  What one call of \<^verbatim>\<open>processVideoFrame\<close> of the second class leaves: the frame it
  emitted, the matrices it allocated and did not delete, the exception that left it
  uncaught, and the pipeline.
\<close>

record capture =
  emitted :: "frame option"
  unreleased :: "mat_id list"
  escaped :: "error option"
  after :: pipeline

definition skipped :: "pipeline \<Rightarrow> capture" where
  "skipped pl = \<lparr>emitted = None, unreleased = [], escaped = None, after = pl\<rparr>"

text \<open>
  The \<^verbatim>\<open>try\<close> block of the second class, lines 781 to 929, from the read of the
  canvas on. The \<^verbatim>\<open>return\<close> of line 808 comes after \<^verbatim>\<open>src\<close> and \<^verbatim>\<open>dst\<close> have been
  allocated; the four \<^verbatim>\<open>delete()\<close> calls are lines 908 and 919 to 921.
\<close>

definition convertAndEmit_B :: "resizer \<Rightarrow> image_data \<Rightarrow> pipeline \<Rightarrow> capture" where
  "convertAndEmit_B cv imageData pl =
     (let src = matFromImageData imageData;
          m1 = new_mat Src [];
          m2 = new_mat Dst m1;
          tw = width (textureRequirements pl);
          th = height (textureRequirements pl)
      in if tw = 0 \<or> th = 0
         then \<lparr>emitted = None, unreleased = m2, escaped = None, after = pl\<rparr>
         else (let dst = cvtColor_RGBA2RGB src;
                   m3 = new_mat Resized m2;
                   resized = resize cv dst tw th INTER_LINEAR;
                   m4 = new_mat Rgba m3;
                   rgba = cvtColor_RGB2RGBA resized;
                   bytes = mat_data rgba;
                   m5 = delete_mat Resized m4;
                   m6 = delete_mat Src m5;
                   m7 = delete_mat Dst m6;
                   m8 = delete_mat Rgba m7;
                   fr = \<lparr>width = tw, height = th, data = bytes, timestamp = None,
                         buffer = bytes\<rparr>
               in \<lparr>emitted = Some fr, unreleased = m8, escaped = None,
                   after = emit_videoFrame fr pl\<rparr>))"

text \<open>
  \<^verbatim>\<open>processVideoFrame\<close> of the second class, lines 752 to 930. The canvas is resized
  outside the \<^verbatim>\<open>try\<close> (lines 775 to 779), so a missing canvas is a \<^verbatim>\<open>TypeError\<close> the
  function does not catch.
\<close>

definition processVideoFrame_B :: "renderer \<Rightarrow> resizer \<Rightarrow> pipeline \<Rightarrow> capture" where
  "processVideoFrame_B draw cv pl =
     (case videoElement pl of
        None \<Rightarrow> skipped pl
      | Some v \<Rightarrow>
          if paused v \<or> ended v then skipped pl
          else if videoWidth v = 0 \<or> videoHeight v = 0 then skipped pl
          else (case videoDestination pl of
                  None \<Rightarrow> (skipped pl)\<lparr>escaped := Some TypeError\<rparr>
                | Some vd \<Rightarrow>
                    (case canvas vd of
                       None \<Rightarrow> (skipped pl)\<lparr>escaped := Some TypeError\<rparr>
                     | Some c \<Rightarrow>
                         (let pl1 = (if strict_neq (width c) (videoWidth v)
                                        \<or> strict_neq (height c) (videoHeight v)
                                     then pl\<lparr>videoDestination := Some (vd\<lparr>canvas :=
                                            Some \<lparr>width = videoWidth v, height = videoHeight v\<rparr>\<rparr>)\<rparr>
                                     else pl)
                          in case context2d vd of
                               None \<Rightarrow> skipped pl1
                             | Some u \<Rightarrow>
                                 (case getImageData
                                         (draw v 0 0 (real (videoWidth v)) (real (videoHeight v)))
                                         (videoWidth v) (videoHeight v) of
                                    None \<Rightarrow> skipped pl1
                                  | Some imageData \<Rightarrow> convertAndEmit_B cv imageData pl1)))))"

text \<open>\<^verbatim>\<open>startVideoProcessing\<close> of the second class, lines 713 to 735.\<close>

definition startVideoProcessing_B :: "pipeline \<Rightarrow> outcome" where
  "startVideoProcessing_B pl =
     (case videoProcessingInterval pl of
        None \<Rightarrow>
          (case videoElement pl of
             None \<Rightarrow> Threw TypeError pl
           | Some v \<Rightarrow>
               if readyState v \<ge> 2
               then (case dashPlayer pl of
                       None \<Rightarrow> Threw TypeError pl
                     | Some d \<Rightarrow>
                         (let frameRate = (if playbackRate v = 0 then 30 else playbackRate v)
                          in Returned (pl\<lparr>videoProcessingInterval :=
                               Some (PlainInterval (1000 / frameRate))\<rparr>)))
               else Returned pl)
      | Some t \<Rightarrow>
          (case videoElement pl of
             None \<Rightarrow> Threw TypeError pl
           | Some v \<Rightarrow> Returned pl))"

subsection \<open>Binding a texture\<close>

text \<open>\<^verbatim>\<open>connectVideoTexture\<close> of the first class, lines 360 to 434.\<close>

definition connectVideoTexture_A :: "texture_extension \<Rightarrow> nat \<Rightarrow> pipeline \<Rightarrow> outcome" where
  "connectVideoTexture_A textureExtension sourceId pl =
     (case textures textureExtension sourceId of
        None \<Rightarrow> Threw (TextureNotFound sourceId) pl
      | Some tex \<Rightarrow>
          (let mpegInfo = mpegTextureInfo tex
           in case sources textureExtension sourceId of
                None \<Rightarrow> Threw (VideoSourceNotFound sourceId) pl
              | Some vs \<Rightarrow>
                  Returned (on_videoFrame (FrameHandler sourceId mpegInfo)
                              (pl\<lparr>videoSources := (videoSources pl)(sourceId \<mapsto> vs)\<rparr>))))"

text \<open>
  \<^verbatim>\<open>connectVideoTexture\<close> of the second class, lines 937 to 1048. It assigns
  \<^verbatim>\<open>this.videoSource\<close> before it tests it (line 950), and the four target fields before
  it tests the dimensions (lines 956 to 973).
\<close>

definition connectVideoTexture_B :: "texture_extension \<Rightarrow> nat \<Rightarrow> pipeline \<Rightarrow> outcome" where
  "connectVideoTexture_B textureExtension sourceId pl =
     (case textures textureExtension sourceId of
        None \<Rightarrow> Threw (TextureNotFound sourceId) pl
      | Some tex \<Rightarrow>
          (let mpegInfo = mpegTextureInfo tex;
               pl1 = pl\<lparr>videoSource := sources textureExtension sourceId\<rparr>
           in case sources textureExtension sourceId of
                None \<Rightarrow> Threw (VideoSourceNotFound sourceId) pl1
              | Some vs \<Rightarrow>
                  (let pl2 = pl1\<lparr>targetWidth := Some (width mpegInfo),
                                 targetHeight := Some (height mpegInfo),
                                 targetFormat := Some (format mpegInfo),
                                 this_frameSize := Some (frameSize mpegInfo)\<rparr>
                   in if width mpegInfo = 0 \<or> height mpegInfo = 0
                      then Threw TargetDimensionsNotFound pl2
                      else Returned (on_videoFrame TextureListener pl2))))"

subsection \<open>Life cycle\<close>

text \<open>
  The constructors, lines 54 to 75 and 526 to 546. \<open>None\<close> is a configuration without
  \<^verbatim>\<open>textureRequirements\<close>.
\<close>

definition defaultRequirements :: target_spec where
  "defaultRequirements = \<lparr>width = 640, height = 360, format = ''RGBA'', frameSize = 640 * 360 * 4\<rparr>"

definition AVPipeline :: "target_spec option \<Rightarrow> pipeline" where
  "AVPipeline config =
     \<lparr>dashPlayer = None, videoElement = None, audioContext = None, isInitialized = False,
      videoProcessingInterval = None, videoSources = Map.empty,
      textureRequirements = (case config of None \<Rightarrow> defaultRequirements | Some r \<Rightarrow> r),
      videoDestination = None, lastFrameTime = None, videoSource = None,
      targetWidth = None, targetHeight = None, targetFormat = None, this_frameSize = None,
      playOverlay = None, playButton = None, listeners = [], effects = []\<rparr>"

text \<open>
  What \<^verbatim>\<open>initialize\<close> of the second class waits for: the manifest (10 seconds at most),
  the metadata of the video (10 seconds at most; the record is the video element as the
  browser has it then), and a click on the play button (no time limit).
\<close>

record page =
  manifest_loaded :: bool
  loaded_metadata :: "video_element option"
  button_clicked :: bool

definition new_video :: video_element where
  "new_video = \<lparr>paused = True, ended = False, readyState = 0, currentTime = 0,
                videoWidth = 0, videoHeight = 0, totalVideoFrames = Some 0, playbackRate = 1\<rparr>"

text \<open>
  \<^verbatim>\<open>initialize\<close> of the second class, lines 555 to 690. A configuration that names
  \<^verbatim>\<open>textureRequirements\<close> names all four fields, so the merge of lines 563 to 566
  replaces them. The hidden flag of the overlay is \<open>Some True\<close>.
\<close>

definition initialize_B :: "page \<Rightarrow> target_spec option \<Rightarrow> pipeline \<Rightarrow> outcome" where
  "initialize_B pg config pl =
     (if isInitialized pl then Returned pl
      else (let pl1 = (case config of None \<Rightarrow> pl | Some r \<Rightarrow> pl\<lparr>textureRequirements := r\<rparr>);
                pl2 = pl1\<lparr>videoElement := Some new_video, playOverlay := Some False,
                          playButton := Some (), dashPlayer := Some ()\<rparr>
            in if \<not> manifest_loaded pg then Threw DashInitializationTimeout pl2
               else (case loaded_metadata pg of
                       None \<Rightarrow> Threw VideoMetadataTimeout pl2
                     | Some v \<Rightarrow>
                         (let pl3 = pl2\<lparr>videoElement := Some v\<rparr>
                          in if \<not> button_clicked pg then Pending pl3
                             else Returned (pl3\<lparr>playOverlay := Some True,
                                    audioContext := Some (),
                                    videoDestination :=
                                      Some \<lparr>canvas = Some \<lparr>width = 300, height = 150\<rparr>,
                                            context2d = Some (), texture_slot = None\<rparr>,
                                    isInitialized := True\<rparr>)))))"

text \<open>
  \<^verbatim>\<open>play\<close> of the second class, lines 1082 to 1094. \<open>allowed\<close> says whether the
  browser lets the video play; if not, its promise is rejected with a
  \<^verbatim>\<open>NotAllowedError\<close> and the overlay is shown again.
\<close>

definition play_B :: "bool \<Rightarrow> pipeline \<Rightarrow> outcome" where
  "play_B allowed pl =
     (case videoElement pl of
        None \<Rightarrow> Returned pl
      | Some v \<Rightarrow>
          if allowed then Returned (pl\<lparr>videoElement := Some (v\<lparr>paused := False\<rparr>)\<rparr>)
          else (case playOverlay pl of
                  None \<Rightarrow> Threw TypeError pl
                | Some h \<Rightarrow> Threw NotAllowedError (pl\<lparr>playOverlay := Some False\<rparr>)))"


definition pause_B :: "pipeline \<Rightarrow> pipeline" where
  "pause_B pl =
     (case videoElement pl of
        None \<Rightarrow> pl
      | Some v \<Rightarrow> pl\<lparr>videoElement := Some (v\<lparr>paused := True\<rparr>)\<rparr>)"


text \<open>\<^verbatim>\<open>seek\<close>, lines 1109 to 1113, and \<^verbatim>\<open>getCurrentTime\<close>, lines 1119 to 1121.\<close>

definition seek :: "real \<Rightarrow> pipeline \<Rightarrow> pipeline" where
  "seek time pl =
     (case videoElement pl of
        None \<Rightarrow> pl
      | Some v \<Rightarrow> pl\<lparr>videoElement := Some (v\<lparr>currentTime := time\<rparr>)\<rparr>)"


text \<open>\<^verbatim>\<open>dispose\<close>, lines 1126 to 1160.\<close>

definition dispose :: "pipeline \<Rightarrow> pipeline" where
  "dispose pl =
     (let pl1 = stopVideoProcessing pl;
          pl2 = (case dashPlayer pl1 of
                   None \<Rightarrow> pl1
                 | Some d \<Rightarrow> pl1\<lparr>dashPlayer := None, effects := effects pl1 @ [DashReset]\<rparr>);
          pl3 = (case videoElement pl2 of
                   None \<Rightarrow> pl2
                 | Some v \<Rightarrow> pl2\<lparr>videoElement := None, effects := effects pl2 @ [VideoRemove]\<rparr>);
          pl4 = (case audioContext pl3 of
                   None \<Rightarrow> pl3
                 | Some a \<Rightarrow> pl3\<lparr>audioContext := None, effects := effects pl3 @ [AudioClose]\<rparr>);
          pl5 = (case videoDestination pl4 of
                   None \<Rightarrow> pl4
                 | Some vd \<Rightarrow> pl4\<lparr>videoDestination :=
                     Some \<lparr>canvas = None, context2d = None, texture_slot = None\<rparr>\<rparr>);
          pl6 = (case playOverlay pl5 of
                   None \<Rightarrow> pl5
                 | Some h \<Rightarrow> pl5\<lparr>playOverlay := None, effects := effects pl5 @ [OverlayRemove]\<rparr>);
          pl7 = (case playButton pl6 of None \<Rightarrow> pl6 | Some b \<Rightarrow> pl6\<lparr>playButton := None\<rparr>)
      in pl7\<lparr>isInitialized := False\<rparr>)"

subsection \<open>The two classes\<close>





subsection \<open>Runs of the second class\<close>

text \<open>
  What can happen to a pipeline of the second class: a call of its public surface, an
  event of its video element (lines 697 to 707 register the handlers), its timer, a call
  of \<^verbatim>\<open>processVideoFrame\<close> from outside (\<open>Capture\<close>), or the browser moving the video
  element to a new state. \<^verbatim>\<open>connectAudioSource\<close> (lines 1055 to 1077) and
  \<^verbatim>\<open>getCurrentTime\<close> assign no field and are left out.
\<close>

datatype media_event = EvPlay | EvPause | EvEnded

datatype action =
    Initialize page "target_spec option"
  | Dispose
  | Play bool
  | Pause
  | Seek real
  | ConnectVideoTexture texture_extension nat
  | VideoEvent media_event
  | TimerFires
  | Capture
  | Media video_element

definition is_Initialize :: "action \<Rightarrow> bool" where
  "is_Initialize a = (case a of Initialize pg c \<Rightarrow> True | _ \<Rightarrow> False)"

definition step_B :: "renderer \<Rightarrow> resizer \<Rightarrow> action \<Rightarrow> pipeline \<Rightarrow> frame option \<times> pipeline" where
  "step_B draw cv a pl =
     (case a of
        Initialize pg config \<Rightarrow> (None, state_of (initialize_B pg config pl))
      | Dispose \<Rightarrow> (None, dispose pl)
      | Play allowed \<Rightarrow> (None, state_of (play_B allowed pl))
      | Pause \<Rightarrow> (None, pause_B pl)
      | Seek time \<Rightarrow> (None, seek time pl)
      | ConnectVideoTexture ext sourceId \<Rightarrow> (None, state_of (connectVideoTexture_B ext sourceId pl))
      | VideoEvent EvPlay \<Rightarrow> (None, state_of (startVideoProcessing_B pl))
      | VideoEvent EvPause \<Rightarrow> (None, stopVideoProcessing pl)
      | VideoEvent EvEnded \<Rightarrow> (None, pl)
      | TimerFires \<Rightarrow>
          (case videoProcessingInterval pl of
             None \<Rightarrow> (None, pl)
           | Some t \<Rightarrow> (let c = processVideoFrame_B draw cv pl in (emitted c, after c)))
      | Capture \<Rightarrow> (let c = processVideoFrame_B draw cv pl in (emitted c, after c))
      | Media v \<Rightarrow>
          (None, case videoElement pl of None \<Rightarrow> pl | Some old \<Rightarrow> pl\<lparr>videoElement := Some v\<rparr>))"

text \<open>The frames a run emits, in order, and the pipeline it ends in.\<close>

fun run_B :: "renderer \<Rightarrow> resizer \<Rightarrow> action list \<Rightarrow> pipeline \<Rightarrow> frame list \<times> pipeline" where
  "run_B draw cv [] pl = ([], pl)"
| "run_B draw cv (a # as) pl =
     (case step_B draw cv a pl of
        (f, pl1) \<Rightarrow>
          (case run_B draw cv as pl1 of
             (fs, pl2) \<Rightarrow> ((case f of None \<Rightarrow> fs | Some x \<Rightarrow> x # fs), pl2)))"

subsection \<open>Captures in a row, first class\<close>

text \<open>The browser moves the playback position of the video element.\<close>

definition playback_at :: "real \<Rightarrow> pipeline \<Rightarrow> pipeline" where
  "playback_at t pl =
     (case videoElement pl of
        None \<Rightarrow> pl
      | Some v \<Rightarrow> pl\<lparr>videoElement := Some (v\<lparr>currentTime := t\<rparr>)\<rparr>)"

text \<open>
  One capture at each of the given source times, in order: the frames emitted and the
  pipeline at the end.
\<close>

fun captures_A :: "renderer \<Rightarrow> real list \<Rightarrow> pipeline \<Rightarrow> frame list \<times> pipeline" where
  "captures_A draw [] pl = ([], pl)"
| "captures_A draw (t # ts) pl =
     (case processVideoFrame_A draw (playback_at t pl) of
        (f, pl1) \<Rightarrow>
          (case captures_A draw ts pl1 of
             (fs, pl2) \<Rightarrow> ((case f of None \<Rightarrow> fs | Some x \<Rightarrow> x # fs), pl2)))"

subsection \<open>Example inputs\<close>

text \<open>A ring buffer with nothing in it, a pipeline whose source 0 is bound to a buffer.\<close>

definition empty_buffer :: "nat \<Rightarrow> int \<Rightarrow> ring_buffer" where
  "empty_buffer cap m = \<lparr>storage = [], capacity = cap, count = 0, maxFrames = m\<rparr>"

definition bound_pipeline :: "ring_buffer \<Rightarrow> pipeline" where
  "bound_pipeline rb =
     (AVPipeline None)\<lparr>videoSources := [0 \<mapsto> \<lparr>circularBuffer = Some rb, bufferCircular = None\<rparr>]\<rparr>"

text \<open>A target of one pixel, and a frame of that size with four equal bytes.\<close>

definition small_info :: target_spec where
  "small_info = \<lparr>width = 1, height = 1, format = ''RGBA'', frameSize = 4\<rparr>"


text \<open>The payload of scenario C: the registered width and height, 900000 bytes.\<close>

definition short_frame :: frame where
  "short_frame = \<lparr>width = 640, height = 360, data = replicate 900000 0, timestamp = None,
                  buffer = replicate 900000 0\<rparr>"

text \<open>A black picture, and a library whose every interpolation gives 0 everywhere.\<close>

definition solid :: renderer where
  "solid v dx dy dw dh x y = (0, 0, 0, 255)"

definition flat :: resizer where
  "flat flag m w h x y c = 0"

text \<open>
  A video of the given size that plays at the given source time, and the canvas of a
  pipeline that has been initialised.
\<close>

definition playing_video :: "nat \<Rightarrow> nat \<Rightarrow> real \<Rightarrow> video_element" where
  "playing_video w h t =
     \<lparr>paused = False, ended = False, readyState = 4, currentTime = t,
      videoWidth = w, videoHeight = h, totalVideoFrames = Some 0, playbackRate = 1\<rparr>"

definition ready_destination :: video_destination where
  "ready_destination =
     \<lparr>canvas = Some \<lparr>width = 300, height = 150\<rparr>, context2d = Some (), texture_slot = None\<rparr>"

text \<open>An initialised pipeline with the given requirements and the given video.\<close>

definition capturing :: "target_spec option \<Rightarrow> video_element \<Rightarrow> pipeline" where
  "capturing config v =
     (AVPipeline config)\<lparr>videoElement := Some v, isInitialized := True,
                          videoDestination := Some ready_destination\<rparr>"

text \<open>Requirements whose width is missing.\<close>

definition no_width :: target_spec where
  "no_width = \<lparr>width = 0, height = 360, format = ''RGBA'', frameSize = 0\<rparr>"

text \<open>
  The variables of a timer started at the clock reading 0 for 30 frames a second: the
  target interval is 1000 / 30 milliseconds.
\<close>

definition paced_30 :: pacing where
  "paced_30 = \<lparr>targetInterval = 100 / 3, lastProcessTime = 0, frameDelay = 0\<rparr>"

text \<open>
  A texture extension with one texture and one video source, both under the id 0.
\<close>

definition one_source :: video_source where
  "one_source = \<lparr>circularBuffer = Some (empty_buffer 12 3),
                 bufferCircular = Some (empty_buffer 12 3)\<rparr>"

definition one_texture :: texture_extension where
  "one_texture = \<lparr>textures = [0 \<mapsto> \<lparr>mpegTextureInfo = small_info\<rparr>],
                  sources = [0 \<mapsto> one_source]\<rparr>"

text \<open>
  A page on which the manifest and the metadata of a video of 1920 by 1080 arrive and the
  user clicks; the same video once the browser has buffered it; and what then happens when
  the user's player is started: the browser lets the video play, the video element
  announces it, the timer fires.
\<close>

definition loaded_video :: video_element where
  "loaded_video = new_video\<lparr>readyState := 1, videoWidth := 1920, videoHeight := 1080\<rparr>"

definition cooperative_page :: page where
  "cooperative_page =
     \<lparr>manifest_loaded = True, loaded_metadata = Some loaded_video, button_clicked = True\<rparr>"

definition session :: "action list" where
  "session = [Initialize cooperative_page None, Media (loaded_video\<lparr>readyState := 4\<rparr>),
              Play True, VideoEvent EvPlay, TimerFires]"

text \<open>A valid target of three bytes a pixel.\<close>

definition rgb_target :: target_spec where
  "rgb_target = \<lparr>width = 640, height = 360, format = ''RGB'', frameSize = 691200\<rparr>"

section \<open>Admission keeps the frame count within its cap\<close>

















section \<open>What a capture emits\<close>

lemma getImageData_SomeD:
  "getImageData px sw sh = Some img \<Longrightarrow> width img = sw \<and> height img = sh \<and> data img = raster px sw sh"
  by (cases "sw = 0 \<or> sh = 0") (auto simp add: getImageData_def)

lemma drawAndEmit_A_size:
  assumes "fst (drawAndEmit_A draw v pl) = Some f"
  shows "width f = width (textureRequirements pl) \<and> height f = height (textureRequirements pl)"
proof -
  obtain ox oy dw dh where lb: "letterbox (videoWidth v) (videoHeight v) (width (textureRequirements pl)) (height (textureRequirements pl)) = (ox, oy, dw, dh)"
    by (cases "letterbox (videoWidth v) (videoHeight v) (width (textureRequirements pl)) (height (textureRequirements pl))") auto
  show ?thesis
    using assms lb
    by (simp add: drawAndEmit_A_def Let_def split: option.splits)
       (use getImageData_SomeD in fastforce)
qed

lemma processVideoFrame_A_size:
  assumes "fst (processVideoFrame_A draw pl) = Some f"
  shows "width f = width (textureRequirements pl) \<and> height f = height (textureRequirements pl)"
proof (cases "videoElement pl")
  case None
  then show ?thesis using assms by (simp add: processVideoFrame_A_def)
next
  case (Some v)
  let ?pl1 = "pl\<lparr>lastFrameTime := Some (currentTime v)\<rparr>"
  have "fst (drawAndEmit_A draw v ?pl1) = Some f"
    using assms Some by (simp add: processVideoFrame_A_def Let_def split: if_splits)
  then have "width f = width (textureRequirements ?pl1) \<and> height f = height (textureRequirements ?pl1)"
    by (rule drawAndEmit_A_size)
  then show ?thesis by simp
qed

lemma convertAndEmit_B_size:
  assumes "emitted (convertAndEmit_B interp img pl) = Some f"
  shows "width f = width (textureRequirements pl) \<and> height f = height (textureRequirements pl)"
  using assms by (simp add: convertAndEmit_B_def Let_def split: if_splits) fastforce

lemma length_add_alpha: "length (add_alpha xs) = 4 * (length xs div 3)"
  by (induction xs rule: add_alpha.induct) simp_all

lemma length_strip_alpha: "length (strip_alpha xs) = 3 * (length xs div 4)"
  by (induction xs rule: strip_alpha.induct) simp_all

lemma length_concat_const:
  "(\<And>x. x \<in> set xs \<Longrightarrow> length (g x) = k) \<Longrightarrow> length (concat (map g xs)) = k * length xs"
  by (induction xs) simp_all

lemma length_resample: "length (resample interp m w h) = w * h * channels m"
  by (simp add: resample_def length_concat_const)

lemma length_bytes_of: "length (bytes_of p) = 4"
  by (cases p) (simp add: bytes_of_def)

lemma length_raster: "length (raster px sw sh) = 4 * (sw * sh)"
  by (simp add: raster_def length_concat_const length_bytes_of)

lemma convertAndEmit_B_data:
  assumes "width (textureRequirements pl) \<noteq> 0" and "height (textureRequirements pl) \<noteq> 0"
  shows "emitted (convertAndEmit_B interp img pl) =
           Some \<lparr>width = width (textureRequirements pl), height = height (textureRequirements pl),
                 data = mat_data (cvtColor_RGB2RGBA (resize interp (cvtColor_RGBA2RGB (matFromImageData img))
                          (width (textureRequirements pl)) (height (textureRequirements pl))
                          INTER_LINEAR)),
                 timestamp = None,
                 buffer = mat_data (cvtColor_RGB2RGBA (resize interp (cvtColor_RGBA2RGB (matFromImageData img))
                          (width (textureRequirements pl)) (height (textureRequirements pl))
                          INTER_LINEAR))\<rparr>"
  using assms by (simp add: convertAndEmit_B_def Let_def)

lemma convertAndEmit_B_unreleased:
  assumes "width (textureRequirements pl) \<noteq> 0" and "height (textureRequirements pl) \<noteq> 0"
  shows "unreleased (convertAndEmit_B interp img pl) = []"
  using assms by (simp add: convertAndEmit_B_def Let_def new_mat_def delete_mat_def)

lemma converted_length:
  "length (mat_data (cvtColor_RGB2RGBA (resize interp (cvtColor_RGBA2RGB m) w h flag))) = w * h * 4"
  by (simp add: cvtColor_RGB2RGBA_def resize_def cvtColor_RGBA2RGB_def length_add_alpha length_resample)

lemma convertAndEmit_B_length:
  assumes "emitted (convertAndEmit_B interp img pl) = Some f"
  shows "length (data f) = width (textureRequirements pl) * height (textureRequirements pl) * 4"
proof -
  have nz: "width (textureRequirements pl) \<noteq> 0" "height (textureRequirements pl) \<noteq> 0"
    using assms by (auto simp add: convertAndEmit_B_def Let_def split: if_splits)
  show ?thesis
    using assms by (simp add: convertAndEmit_B_data [OF nz]) (use converted_length in fastforce)
qed

lemma processVideoFrame_B_emitted:
  assumes "emitted (processVideoFrame_B draw interp pl) = Some f"
  shows "\<exists>img pl1. textureRequirements pl1 = textureRequirements pl \<and>
           emitted (convertAndEmit_B interp img pl1) = Some f"
proof (cases "videoElement pl")
  case None
  then show ?thesis using assms by (simp add: processVideoFrame_B_def skipped_def)
next
  case v: (Some v)
  show ?thesis
  proof (cases "videoDestination pl")
    case None
    then show ?thesis using assms v
      by (simp add: processVideoFrame_B_def skipped_def split: if_splits)
  next
    case vd: (Some vd)
    show ?thesis
    proof (cases "canvas vd")
      case None
      then show ?thesis using assms v vd
        by (simp add: processVideoFrame_B_def skipped_def split: if_splits)
    next
      case c: (Some c)
      define pl1 where "pl1 = (if strict_neq (width c) (videoWidth v) \<or> strict_neq (height c) (videoHeight v)
                                     then pl\<lparr>videoDestination := Some (vd\<lparr>canvas :=
                                            Some \<lparr>width = videoWidth v, height = videoHeight v\<rparr>\<rparr>)\<rparr>
                                     else pl)"
      have t: "textureRequirements pl1 = textureRequirements pl" by (simp add: pl1_def)
      have "\<exists>img. emitted (convertAndEmit_B interp img pl1) = Some f"
        using assms v vd c unfolding pl1_def
        by (simp add: processVideoFrame_B_def skipped_def Let_def split: if_splits option.splits) blast+
      then show ?thesis using t by blast
    qed
  qed
qed

lemma processVideoFrame_B_running:
  assumes "videoElement pl = Some v" and "\<not> paused v" and "\<not> ended v"
    and "videoWidth v \<noteq> 0" and "videoHeight v \<noteq> 0"
    and "videoDestination pl = Some vd" and "canvas vd = Some c" and "context2d vd = Some u"
  shows "\<exists>pl1. textureRequirements pl1 = textureRequirements pl \<and>
           processVideoFrame_B draw interp pl =
             convertAndEmit_B interp
               \<lparr>width = videoWidth v, height = videoHeight v,
                data = raster (draw v 0 0 (real (videoWidth v)) (real (videoHeight v)))
                         (videoWidth v) (videoHeight v)\<rparr> pl1"
proof -
  define pl1 where "pl1 = (if strict_neq (width c) (videoWidth v) \<or> strict_neq (height c) (videoHeight v)
                                     then pl\<lparr>videoDestination := Some (vd\<lparr>canvas :=
                                            Some \<lparr>width = videoWidth v, height = videoHeight v\<rparr>\<rparr>)\<rparr>
                                     else pl)"
  have t: "textureRequirements pl1 = textureRequirements pl" by (simp add: pl1_def)
  have "processVideoFrame_B draw interp pl =
             convertAndEmit_B interp
               \<lparr>width = videoWidth v, height = videoHeight v,
                data = raster (draw v 0 0 (real (videoWidth v)) (real (videoHeight v)))
                         (videoWidth v) (videoHeight v)\<rparr> pl1"
    using assms unfolding pl1_def
    by (simp add: processVideoFrame_B_def getImageData_def Let_def)
  then show ?thesis using t by blast
qed

lemma processVideoFrame_B_size:
  assumes "emitted (processVideoFrame_B draw interp pl) = Some f"
  shows "width f = width (textureRequirements pl) \<and> height f = height (textureRequirements pl)"
proof -
  obtain img pl1 where p: "textureRequirements pl1 = textureRequirements pl"
      "emitted (convertAndEmit_B interp img pl1) = Some f"
    using processVideoFrame_B_emitted [OF assms] by blast
  show ?thesis using convertAndEmit_B_size [OF p(2)] p(1) by simp
qed

section \<open>The converted frame\<close>

lemma valid_TargetSpec_four:
  assumes "valid_TargetSpec t"
  shows "(width t * height t * 4 = frameSize t) = (bytesPerPixel (format t) = Some 4)"
proof (cases "bytesPerPixel (format t)")
  case None
  then show ?thesis using assms by (simp add: valid_TargetSpec_def)
next
  case (Some n)
  then have "frameSize t = width t * height t * n" and "width t * height t \<noteq> 0"
    using assms by (simp_all add: valid_TargetSpec_def)
  then show ?thesis using Some by auto
qed

text \<open>
  Against C2 as stated. The requirements 640 by 360 in the format RGB with 691200 bytes
  are valid: three bytes a pixel. The conversion reads \<^verbatim>\<open>format\<close> and \<^verbatim>\<open>frameSize\<close>
  (lines 799 and 800) and never uses them; line 888 always expands to four channels. From
  a source of 1920 by 1080 the frame that is emitted has 921600 bytes, not 691200.
\<close>

theorem converted_frame_length_counterexample:
  "valid_TargetSpec rgb_target
   \<and> frameSize rgb_target = 691200
   \<and> map_option byteLength
        (emitted (processVideoFrame_B solid flat
                    (capturing (Some rgb_target) (playing_video 1920 1080 1)))) = Some 921600"
proof -
  let ?pl = "capturing (Some rgb_target) (playing_video 1920 1080 1)"
  have v: "valid_TargetSpec rgb_target"
    by (simp add: valid_TargetSpec_def rgb_target_def bytesPerPixel_def)
  have s: "frameSize rgb_target = 691200" by (simp add: rgb_target_def)
  have t: "textureRequirements ?pl = rgb_target" by (simp add: capturing_def AVPipeline_def)
  obtain pl1 where p: "textureRequirements pl1 = textureRequirements ?pl"
      "processVideoFrame_B solid flat ?pl =
         convertAndEmit_B flat
           \<lparr>width = videoWidth (playing_video 1920 1080 1),
            height = videoHeight (playing_video 1920 1080 1),
            data = raster (solid (playing_video 1920 1080 1) 0 0
                             (real (videoWidth (playing_video 1920 1080 1)))
                             (real (videoHeight (playing_video 1920 1080 1))))
                     (videoWidth (playing_video 1920 1080 1))
                     (videoHeight (playing_video 1920 1080 1))\<rparr> pl1"
    using processVideoFrame_B_running [of ?pl "playing_video 1920 1080 1" ready_destination
        "\<lparr>width = 300, height = 150\<rparr>" "()" solid flat]
    by (simp add: capturing_def AVPipeline_def playing_video_def ready_destination_def) blast
  have nz: "width (textureRequirements pl1) \<noteq> 0" "height (textureRequirements pl1) \<noteq> 0"
    using p(1) t by (simp_all add: rgb_target_def)
  have w: "width (textureRequirements pl1) = 640" "height (textureRequirements pl1) = 360"
    using p(1) t by (simp_all add: rgb_target_def)
  have "map_option byteLength (emitted (processVideoFrame_B solid flat ?pl)) = Some 921600"
    unfolding p(2) convertAndEmit_B_data [OF nz]
    by (simp add: byteLength_def converted_length w)
  then show ?thesis using v s by simp
qed

text \<open>
  C2, amended. A frame that the capture of the second class emits has exactly
  \<open>width * height * 4\<close> bytes, for the width and height of the texture requirements, whatever
  their format is; when the requirements are valid, this number is their \<open>frameSize\<close>
  exactly when the format has four bytes a pixel (RGBA). When the video plays and has a
  size, the canvas is there and the requirements have a width and a height, a frame is
  emitted; its bytes are those of the source after the conversion from four channels to
  three, the resize to the target width and height that is called with
  \<^verbatim>\<open>cv.INTER_LINEAR\<close>, and the conversion back to four channels, in this order.
\<close>

theorem converted_frame_has_four_bytes_a_pixel:
  assumes "textureRequirements pl = t"
  shows "(\<forall>f. emitted (processVideoFrame_B draw cv pl) = Some f \<longrightarrow>
              length (data f) = width t * height t * 4
            \<and> (valid_TargetSpec t \<longrightarrow>
                 (length (data f) = frameSize t) = (bytesPerPixel (format t) = Some 4)))
       \<and> (videoElement pl = Some v \<and> \<not> paused v \<and> \<not> ended v \<and>
            videoWidth v \<noteq> 0 \<and> videoHeight v \<noteq> 0 \<and>
            videoDestination pl = Some vd \<and> canvas vd = Some c \<and> context2d vd = Some u \<and>
            width t \<noteq> 0 \<and> height t \<noteq> 0 \<longrightarrow>
            (\<exists>f. emitted (processVideoFrame_B draw cv pl) = Some f \<and>
                 data f = mat_data (cvtColor_RGB2RGBA (resize cv (cvtColor_RGBA2RGB
                            (matFromImageData
                               \<lparr>width = videoWidth v, height = videoHeight v,
                                data = raster (draw v 0 0 (real (videoWidth v)) (real (videoHeight v)))
                                         (videoWidth v) (videoHeight v)\<rparr>))
                            (width t) (height t) INTER_LINEAR))))"
proof (intro conjI allI impI)
  fix f
  assume e: "emitted (processVideoFrame_B draw cv pl) = Some f"
  obtain img pl1 where p: "textureRequirements pl1 = textureRequirements pl"
      "emitted (convertAndEmit_B cv img pl1) = Some f"
    using processVideoFrame_B_emitted [OF e] by blast
  show l: "length (data f) = width t * height t * 4"
    using convertAndEmit_B_length [OF p(2)] p(1) assms by simp
  assume "valid_TargetSpec t"
  then show "(length (data f) = frameSize t) = (bytesPerPixel (format t) = Some 4)"
    using valid_TargetSpec_four [of t] l by simp
next
  assume a: "videoElement pl = Some v \<and> \<not> paused v \<and> \<not> ended v \<and>
            videoWidth v \<noteq> 0 \<and> videoHeight v \<noteq> 0 \<and>
            videoDestination pl = Some vd \<and> canvas vd = Some c \<and> context2d vd = Some u \<and>
            width t \<noteq> 0 \<and> height t \<noteq> 0"
  let ?img = "\<lparr>width = videoWidth v, height = videoHeight v,
                data = raster (draw v 0 0 (real (videoWidth v)) (real (videoHeight v)))
                         (videoWidth v) (videoHeight v)\<rparr>"
  obtain pl1 where p: "textureRequirements pl1 = textureRequirements pl"
      "processVideoFrame_B draw cv pl = convertAndEmit_B cv ?img pl1"
    using processVideoFrame_B_running [of pl v vd c u draw cv] a by blast
  have nz: "width (textureRequirements pl1) \<noteq> 0" "height (textureRequirements pl1) \<noteq> 0"
    using a p(1) assms by simp_all
  let ?bytes = "mat_data (cvtColor_RGB2RGBA (resize cv (cvtColor_RGBA2RGB (matFromImageData ?img))
                      (width t) (height t) INTER_LINEAR))"
  let ?f = "\<lparr>width = width t, height = height t, data = ?bytes, timestamp = None,
             buffer = ?bytes\<rparr>"
  have e: "emitted (processVideoFrame_B draw cv pl) = Some ?f"
    using convertAndEmit_B_data [OF nz, of cv ?img] p assms by simp
  show "\<exists>f. emitted (processVideoFrame_B draw cv pl) = Some f \<and>
                 data f = mat_data (cvtColor_RGB2RGBA (resize cv (cvtColor_RGBA2RGB
                            (matFromImageData ?img)) (width t) (height t) INTER_LINEAR))"
    using e by (intro exI [of _ ?f]) simp
qed

text \<open>
  Scenario A: a source of 1920 by 1080 against the requirements 640 by 360, RGBA, 921600
  bytes.
\<close>

theorem converted_frame_has_four_bytes_a_pixel_witness:
  "textureRequirements (capturing None (playing_video 1920 1080 1)) = defaultRequirements \<and>
   valid_TargetSpec defaultRequirements \<and>
   frameSize defaultRequirements = 921600 \<and>
   (\<exists>f. emitted (processVideoFrame_B solid flat (capturing None (playing_video 1920 1080 1))) = Some f \<and>
        length (data f) = 921600)"
proof -
  let ?pl = "capturing None (playing_video 1920 1080 1)"
  have h: "textureRequirements ?pl = defaultRequirements"
    by (simp add: capturing_def AVPipeline_def)
  have pre: "videoElement ?pl = Some (playing_video 1920 1080 1) \<and>
       \<not> paused (playing_video 1920 1080 1) \<and> \<not> ended (playing_video 1920 1080 1) \<and>
       videoWidth (playing_video 1920 1080 1) \<noteq> 0 \<and> videoHeight (playing_video 1920 1080 1) \<noteq> 0 \<and>
       videoDestination ?pl = Some ready_destination \<and>
       canvas ready_destination = Some \<lparr>width = 300, height = 150\<rparr> \<and>
       context2d ready_destination = Some () \<and>
       width defaultRequirements \<noteq> 0 \<and> height defaultRequirements \<noteq> 0"
    by (simp add: capturing_def AVPipeline_def playing_video_def ready_destination_def
        defaultRequirements_def)
  have v: "valid_TargetSpec defaultRequirements"
    by (simp add: valid_TargetSpec_def defaultRequirements_def bytesPerPixel_def)
  have b: "bytesPerPixel (format defaultRequirements) = Some 4"
    by (simp add: defaultRequirements_def bytesPerPixel_def)
  have fs: "frameSize defaultRequirements = 921600" by (simp add: defaultRequirements_def)
  note th = converted_frame_has_four_bytes_a_pixel [OF h, where draw = solid and cv = flat
      and v = "playing_video 1920 1080 1" and vd = ready_destination
      and c = "\<lparr>width = 300, height = 150\<rparr>" and u = "()"]
  obtain f where f: "emitted (processVideoFrame_B solid flat ?pl) = Some f"
    using th pre by blast
  have "length (data f) = frameSize defaultRequirements"
    using th f v b by blast
  then show ?thesis using h v fs f by simp
qed

section \<open>Pacing\<close>

lemma pacingTick_invoked:
  "fst (pacingTick now p pc) \<longleftrightarrow> now - lastProcessTime pc \<ge> targetInterval pc - frameDelay pc"
  by (simp add: pacingTick_def Let_def)

lemma pacingTick_state:
  "snd (pacingTick now p pc) =
     (if fst (pacingTick now p pc)
      then \<lparr>targetInterval = targetInterval pc, lastProcessTime = now,
            frameDelay = max 0 (p - (targetInterval pc - (now - lastProcessTime pc)))\<rparr>
      else pc)"
  by (simp add: pacingTick_def Let_def)

lemma pacingTick_frameDelay_nonneg:
  "0 \<le> frameDelay pc \<Longrightarrow> 0 \<le> frameDelay (snd (pacingTick now p pc))"
  by (simp add: pacingTick_def Let_def)

lemma pacingTick_after_interval:
  assumes "fst (pacingTick now p pc)" and "now + targetInterval pc \<le> now'"
  shows "fst (pacingTick now' p' (snd (pacingTick now p pc)))"
  using assms by (auto simp add: pacingTick_def Let_def max_def split: if_splits)

lemma sequential_next_tick:
  assumes "sequential pc ((now, p) # (now', p') # ticks)" and "fst (pacingTick now p pc)"
  shows "now + p \<le> now'"
  using assms by simp

lemma startVideoProcessing_A_timer:
  assumes "videoProcessingInterval pl = None" and "videoElement pl = Some v" and "readyState v \<ge> 2"
  shows "startVideoProcessing_A now pl =
           Returned (pl\<lparr>videoProcessingInterval :=
             Some (PacedInterval (min (targetInterval_of v / 2) (1667 / 100))
                     \<lparr>targetInterval = targetInterval_of v, lastProcessTime = now, frameDelay = 0\<rparr>)\<rparr>)"
  using assms by (simp add: startVideoProcessing_A_def intervalPeriod_def Let_def)

lemma timerCallback_A_paced:
  assumes "videoProcessingInterval pl = Some (PacedInterval d pc)"
  shows "timerCallback_A draw now p pl =
           (if fst (pacingTick now p pc)
            then (fst (processVideoFrame_A draw pl),
                  (snd (processVideoFrame_A draw pl))
                    \<lparr>videoProcessingInterval := Some (PacedInterval d (snd (pacingTick now p pc)))\<rparr>)
            else (None, pl))"
  using assms by (simp add: timerCallback_A_def split: prod.splits)

text \<open>
  Against C3 as stated. A timer is started at the clock reading 0 for 30 frames a second:
  the target interval is 100/3 milliseconds, the period 50/3. The tick at 50/3 does not
  invoke the capture, the tick at 100/3 does, and this capture takes 100 milliseconds. The
  next callback cannot start before 400/3, where the capture is invoked again: that is
  later than the original target interval (100/3 after the capture before) plus one period,
  which is 250/3; a tick at 250/3 is not one a single thread can see.
\<close>

theorem pacing_overrun_counterexample:
  "startVideoProcessing_A 0 (capturing None (playing_video 1920 1080 0)) =
     Returned ((capturing None (playing_video 1920 1080 0))
                 \<lparr>videoProcessingInterval := Some (PacedInterval (50 / 3) paced_30)\<rparr>)
   \<and> sequential paced_30 [(50 / 3, 1), (100 / 3, 100), (400 / 3, 1)]
   \<and> fst (pacingRun [(50 / 3, 1), (100 / 3, 100), (400 / 3, 1)] paced_30) = [False, True, True]
   \<and> 100 / 3 + targetInterval paced_30 + 50 / 3 < (400 / 3 :: real)
   \<and> \<not> sequential paced_30 [(50 / 3, 1), (100 / 3, 100), (250 / 3, 1)]"
  by (simp add: startVideoProcessing_A_def intervalPeriod_def targetInterval_of_def
      capturing_def AVPipeline_def playing_video_def paced_30_def pacingTick_def Let_def)

text \<open>
  C3, amended. The period of the timer is the smaller of half the target interval and
  16.67 milliseconds. A tick invokes the capture exactly when
  \<open>elapsed \<ge> targetInterval - frameDelay\<close>, for \<open>elapsed = now - lastProcessTime\<close>, and then
  sets \<open>frameDelay\<close> to \<open>max 0 (processTime - (targetInterval - elapsed))\<close> and
  \<open>lastProcessTime\<close> to \<open>now\<close>; another tick changes nothing. So \<open>frameDelay\<close> is never
  negative and is computed from the last capture alone (nothing accumulates); every tick
  that comes at least a target interval after the tick of the last capture invokes the
  capture; and after a capture that took longer than the target interval, the next tick,
  which comes no earlier than the end of that capture, invokes the capture.
\<close>

theorem pacingTick_compensates:
  assumes "0 \<le> frameDelay pc"
  shows "(videoProcessingInterval pl = None \<and> videoElement pl = Some v \<and> readyState v \<ge> 2 \<longrightarrow>
            startVideoProcessing_A start pl =
              Returned (pl\<lparr>videoProcessingInterval :=
                Some (PacedInterval (min (targetInterval_of v / 2) (1667 / 100))
                        \<lparr>targetInterval = targetInterval_of v, lastProcessTime = start,
                         frameDelay = 0\<rparr>)\<rparr>))
       \<and> (videoProcessingInterval pl = Some (PacedInterval d pc) \<longrightarrow>
            timerCallback_A draw now p pl =
              (if fst (pacingTick now p pc)
               then (fst (processVideoFrame_A draw pl),
                     (snd (processVideoFrame_A draw pl))
                       \<lparr>videoProcessingInterval := Some (PacedInterval d (snd (pacingTick now p pc)))\<rparr>)
               else (None, pl)))
       \<and> (fst (pacingTick now p pc) \<longleftrightarrow>
            now - lastProcessTime pc \<ge> targetInterval pc - frameDelay pc)
       \<and> snd (pacingTick now p pc) =
            (if fst (pacingTick now p pc)
             then \<lparr>targetInterval = targetInterval pc, lastProcessTime = now,
                   frameDelay = max 0 (p - (targetInterval pc - (now - lastProcessTime pc)))\<rparr>
             else pc)
       \<and> 0 \<le> frameDelay (snd (pacingTick now p pc))
       \<and> (fst (pacingTick now p pc) \<and> now + targetInterval pc \<le> now' \<longrightarrow>
            fst (pacingTick now' p' (snd (pacingTick now p pc))))
       \<and> (fst (pacingTick now p pc) \<and> targetInterval pc < p \<and>
            sequential pc ((now, p) # (now', p') # ticks) \<longrightarrow>
            now + p \<le> now' \<and> fst (pacingTick now' p' (snd (pacingTick now p pc))))"
proof (intro conjI impI)
  assume "videoProcessingInterval pl = None \<and> videoElement pl = Some v \<and> readyState v \<ge> 2"
  then show "startVideoProcessing_A start pl =
              Returned (pl\<lparr>videoProcessingInterval :=
                Some (PacedInterval (min (targetInterval_of v / 2) (1667 / 100))
                        \<lparr>targetInterval = targetInterval_of v, lastProcessTime = start,
                         frameDelay = 0\<rparr>)\<rparr>)"
    by (simp add: startVideoProcessing_A_timer)
next
  assume "videoProcessingInterval pl = Some (PacedInterval d pc)"
  then show "timerCallback_A draw now p pl =
              (if fst (pacingTick now p pc)
               then (fst (processVideoFrame_A draw pl),
                     (snd (processVideoFrame_A draw pl))
                       \<lparr>videoProcessingInterval := Some (PacedInterval d (snd (pacingTick now p pc)))\<rparr>)
               else (None, pl))"
    by (rule timerCallback_A_paced)
next
  show "fst (pacingTick now p pc) \<longleftrightarrow>
            now - lastProcessTime pc \<ge> targetInterval pc - frameDelay pc"
    by (rule pacingTick_invoked)
next
  show "snd (pacingTick now p pc) =
            (if fst (pacingTick now p pc)
             then \<lparr>targetInterval = targetInterval pc, lastProcessTime = now,
                   frameDelay = max 0 (p - (targetInterval pc - (now - lastProcessTime pc)))\<rparr>
             else pc)"
    by (rule pacingTick_state)
next
  show "0 \<le> frameDelay (snd (pacingTick now p pc))"
    using assms by (rule pacingTick_frameDelay_nonneg)
next
  assume "fst (pacingTick now p pc) \<and> now + targetInterval pc \<le> now'"
  then show "fst (pacingTick now' p' (snd (pacingTick now p pc)))"
    by (simp add: pacingTick_after_interval)
next
  assume a: "fst (pacingTick now p pc) \<and> targetInterval pc < p \<and>
            sequential pc ((now, p) # (now', p') # ticks)"
  then show "now + p \<le> now'" by auto
next
  assume a: "fst (pacingTick now p pc) \<and> targetInterval pc < p \<and>
            sequential pc ((now, p) # (now', p') # ticks)"
  then have "now + p \<le> now'" by auto
  then have "now + targetInterval pc \<le> now'" using a by simp
  then show "fst (pacingTick now' p' (snd (pacingTick now p pc)))"
    using a by (simp add: pacingTick_after_interval)
qed

theorem pacingTick_compensates_witness:
  "0 \<le> frameDelay paced_30
   \<and> fst (pacingTick (100 / 3) 100 paced_30)
   \<and> targetInterval paced_30 < 100
   \<and> sequential paced_30 [(100 / 3, 100), (400 / 3, 1)]
   \<and> snd (pacingTick (100 / 3) 100 paced_30)
        = \<lparr>targetInterval = 100 / 3, lastProcessTime = 100 / 3, frameDelay = 100\<rparr>
   \<and> fst (pacingTick (400 / 3) 1 (snd (pacingTick (100 / 3) 100 paced_30)))"
proof -
  have h: "0 \<le> frameDelay paced_30" by (simp add: paced_30_def)
  have pre: "fst (pacingTick (100 / 3) 100 paced_30) \<and> targetInterval paced_30 < 100
      \<and> sequential paced_30 [(100 / 3, 100), (400 / 3, 1)]"
    by (simp add: paced_30_def pacingTick_def Let_def)
  have st: "snd (pacingTick (100 / 3) 100 paced_30)
        = \<lparr>targetInterval = 100 / 3, lastProcessTime = 100 / 3, frameDelay = 100\<rparr>"
    by (simp add: paced_30_def pacingTick_def Let_def)
  have "fst (pacingTick (400 / 3) 1 (snd (pacingTick (100 / 3) 100 paced_30)))"
    using pacingTick_compensates [OF h, where now = "100 / 3" and p = 100 and now' = "400 / 3"
        and p' = 1 and ticks = "[]"] pre
    by blast
  then show ?thesis using h pre st by simp
qed

section \<open>A payload of the wrong length\<close>

text \<open>
  The listener of the second class drops a payload whose buffer does not have
  \<^verbatim>\<open>targetWidth * targetHeight * 4\<close> bytes (lines 1006 and 1023).
\<close>

lemma textureListener_B_drops_wrong_length:
  assumes "targetWidth pl = Some w" and "targetHeight pl = Some h"
    and "length (buffer fr) \<noteq> w * h * 4"
  shows "textureListener_B fr pl = pl"
proof (cases "videoSource pl")
  case None
  then show ?thesis by (simp add: textureListener_B_def)
next
  case (Some vs)
  then show ?thesis using assms
    by (cases "bufferCircular vs") (simp_all add: textureListener_B_def Let_def)
qed

text \<open>
  C4. The frame handler of the first class, the one that keeps \<open>count\<close>, tests the width
  and the height of a frame and not the length of its bytes: a payload of 900000 bytes
  with the registered width and height, against a target of 921600 bytes, is pushed into
  the empty buffer and \<open>count\<close> goes from 0 to 1.
\<close>

theorem frameHandler_A_admits_short_payload:
  "length (data short_frame) \<noteq> frameSize defaultRequirements \<and>
   binding 0 (frameHandler_A 0 defaultRequirements short_frame
                (bound_pipeline (empty_buffer 2764800 3))) =
     Some \<lparr>storage = replicate 900000 0, capacity = 2764800, count = 1, maxFrames = 3\<rparr>"
  by (simp add: frameHandler_A_def binding_def bound_pipeline_def AVPipeline_def
      empty_buffer_def short_frame_def defaultRequirements_def strict_neq_def
      admit_def push_def pop_def available_write_def Let_def)

section \<open>The size a frame carries\<close>

text \<open>
  Against C5 as stated: with a source of 1920 by 1080 and the default requirements, both
  classes emit a frame that carries 640 and 360.
\<close>

theorem emitted_frame_has_target_size_counterexample:
  "map_option width (fst (processVideoFrame_A solid (capturing None (playing_video 1920 1080 1)))) = Some 640
   \<and> map_option height (fst (processVideoFrame_A solid (capturing None (playing_video 1920 1080 1)))) = Some 360
   \<and> map_option width (emitted (processVideoFrame_B solid flat (capturing None (playing_video 1920 1080 1)))) = Some 640
   \<and> map_option height (emitted (processVideoFrame_B solid flat (capturing None (playing_video 1920 1080 1)))) = Some 360
   \<and> videoWidth (playing_video 1920 1080 1) = 1920 \<and> videoHeight (playing_video 1920 1080 1) = 1080"
  by (simp add: processVideoFrame_A_def drawAndEmit_A_def processVideoFrame_B_def convertAndEmit_B_def
      capturing_def AVPipeline_def
      playing_video_def ready_destination_def truthy_def getImageData_def letterbox_def
      emit_videoFrame_def defaultRequirements_def strict_neq_def new_mat_def delete_mat_def Let_def)

text \<open>
  C5, amended. Every frame a capture emits carries the width and the height of the
  texture requirements, in both classes: the first class reads the canvas back at the
  target size (line 302), the second class writes the target size into the event (lines
  925 and 926). The size of the source does not enter.
\<close>

theorem emitted_frame_has_target_size:
  "(fst (processVideoFrame_A draw pl) = Some f \<longrightarrow>
      width f = width (textureRequirements pl) \<and> height f = height (textureRequirements pl))
   \<and> (emitted (processVideoFrame_B draw interp pl) = Some f \<longrightarrow>
      width f = width (textureRequirements pl) \<and> height f = height (textureRequirements pl))"
  using processVideoFrame_A_size [of draw pl f] processVideoFrame_B_size [of draw interp pl f]
  by blast

theorem emitted_frame_has_target_size_witness:
  "fst (processVideoFrame_A solid (capturing None (playing_video 1920 1080 1)))
     = Some \<lparr>width = 640, height = 360, data = raster (solid (playing_video 1920 1080 1) 0 0 640 360) 640 360,
             timestamp = Some 1,
             buffer = raster (solid (playing_video 1920 1080 1) 0 0 640 360) 640 360\<rparr>
   \<and> width (textureRequirements (capturing None (playing_video 1920 1080 1))) = 640
   \<and> height (textureRequirements (capturing None (playing_video 1920 1080 1))) = 360"
proof -
  have e: "fst (processVideoFrame_A solid (capturing None (playing_video 1920 1080 1)))
     = Some \<lparr>width = 640, height = 360, data = raster (solid (playing_video 1920 1080 1) 0 0 640 360) 640 360,
             timestamp = Some 1,
             buffer = raster (solid (playing_video 1920 1080 1) 0 0 640 360) 640 360\<rparr>"
    by (simp add: processVideoFrame_A_def drawAndEmit_A_def capturing_def AVPipeline_def
      playing_video_def ready_destination_def truthy_def getImageData_def letterbox_def
      emit_videoFrame_def defaultRequirements_def Let_def)
  show ?thesis
    using emitted_frame_has_target_size [of solid "capturing None (playing_video 1920 1080 1)"
        "\<lparr>width = 640, height = 360, data = raster (solid (playing_video 1920 1080 1) 0 0 640 360) 640 360,
             timestamp = Some 1,
             buffer = raster (solid (playing_video 1920 1080 1) 0 0 640 360) 640 360\<rparr>" flat] e
    by simp
qed

section \<open>Matrices left allocated\<close>

text \<open>
  C6. With texture requirements whose width is 0 the capture of the second class
  returns at line 808, after it has allocated \<^verbatim>\<open>src\<close> and \<^verbatim>\<open>dst\<close> (lines 791 and 794)
  and before any \<^verbatim>\<open>delete()\<close>: both matrices stay allocated. (On the path that emits a
  frame all four are deleted: \<open>convertAndEmit_B_unreleased\<close>.)
\<close>

theorem early_return_leaves_two_matrices:
  "unreleased (processVideoFrame_B solid flat (capturing (Some no_width) (playing_video 1920 1080 1)))
     = [Src, Dst]"
  by (simp add: processVideoFrame_B_def convertAndEmit_B_def capturing_def AVPipeline_def
      playing_video_def ready_destination_def getImageData_def no_width_def strict_neq_def
      new_mat_def skipped_def Let_def)

section \<open>Captures close in source time\<close>

text \<open>
  A capture less than \<open>one_sixtieth\<close> second after the last accepted one is skipped, when
  that one was not at the source time 0.
\<close>

lemma processVideoFrame_A_skips:
  assumes "videoElement pl = Some v" and "lastFrameTime pl = Some t0" and "t0 \<noteq> 0"
    and "currentTime v - t0 < one_sixtieth"
  shows "processVideoFrame_A draw pl = (None, pl)"
  using assms by (simp add: processVideoFrame_A_def truthy_def)

text \<open>
  C7. The test of line 245 reads \<^verbatim>\<open>_lastFrameTime\<close> as a truth value, and the source time
  0 is falsy: after a capture at the source time 0, a capture at 0.01 second, less than
  1/60 second later, is not skipped. Both frames are emitted.
\<close>

theorem capture_at_time_zero_is_not_remembered:
  "map timestamp (fst (captures_A solid [0, 1 / 100] (capturing None (playing_video 1920 1080 0))))
     = [Some 0, Some (1 / 100)]"
  by (simp add: processVideoFrame_A_def drawAndEmit_A_def capturing_def AVPipeline_def
      playing_video_def ready_destination_def truthy_def getImageData_def letterbox_def
      emit_videoFrame_def playback_at_def defaultRequirements_def Let_def)

section \<open>Binding a texture before initialisation\<close>

text \<open>
  Against C8 as stated: on a pipeline that has just been constructed,
  \<^verbatim>\<open>connectVideoTexture\<close> of either class returns, registers its listener and stores the
  video source.
\<close>

theorem connectVideoTexture_before_initialize_counterexample:
  "\<not> isInitialized (AVPipeline None)
   \<and> returns (connectVideoTexture_A one_texture 0 (AVPipeline None))
   \<and> listeners (state_of (connectVideoTexture_A one_texture 0 (AVPipeline None)))
        = [FrameHandler 0 small_info]
   \<and> videoSources (state_of (connectVideoTexture_A one_texture 0 (AVPipeline None))) 0
        = Some one_source
   \<and> returns (connectVideoTexture_B one_texture 0 (AVPipeline None))
   \<and> listeners (state_of (connectVideoTexture_B one_texture 0 (AVPipeline None)))
        = [TextureListener]
   \<and> videoSource (state_of (connectVideoTexture_B one_texture 0 (AVPipeline None)))
        = Some one_source"
  by (simp add: connectVideoTexture_A_def connectVideoTexture_B_def one_texture_def
      AVPipeline_def returns_def state_of_def on_videoFrame_def small_info_def Let_def)

text \<open>
  C8, amended. \<^verbatim>\<open>connectVideoTexture\<close> does not look at the state of the pipeline. With a
  texture and a video source under the id (and, in the second class, a target width and
  height other than 0) it returns, stores the video source and registers a frame handler.
  It throws only when the texture or the video source is missing, or, in the second class,
  when a target dimension is 0; it then registers no frame handler, and the first class
  leaves the pipeline as it was.
\<close>

theorem connectVideoTexture_checks_ids_only:
  "(textures ext sid = Some tex \<and> sources ext sid = Some vs \<longrightarrow>
      returns (connectVideoTexture_A ext sid pl)
      \<and> videoSources (state_of (connectVideoTexture_A ext sid pl)) sid = Some vs
      \<and> listeners (state_of (connectVideoTexture_A ext sid pl))
           = listeners pl @ [FrameHandler sid (mpegTextureInfo tex)])
   \<and> (textures ext sid = None \<longrightarrow>
      connectVideoTexture_A ext sid pl = Threw (TextureNotFound sid) pl)
   \<and> (textures ext sid = Some tex \<and> sources ext sid = None \<longrightarrow>
      connectVideoTexture_A ext sid pl = Threw (VideoSourceNotFound sid) pl)
   \<and> (textures ext sid = Some tex \<and> sources ext sid = Some vs
       \<and> width (mpegTextureInfo tex) \<noteq> 0 \<and> height (mpegTextureInfo tex) \<noteq> 0 \<longrightarrow>
      returns (connectVideoTexture_B ext sid pl)
      \<and> videoSource (state_of (connectVideoTexture_B ext sid pl)) = Some vs
      \<and> listeners (state_of (connectVideoTexture_B ext sid pl)) = listeners pl @ [TextureListener])
   \<and> (textures ext sid = None \<longrightarrow>
      connectVideoTexture_B ext sid pl = Threw (TextureNotFound sid) pl)
   \<and> (textures ext sid = Some tex \<and> sources ext sid = None \<longrightarrow>
      connectVideoTexture_B ext sid pl = Threw (VideoSourceNotFound sid) (pl\<lparr>videoSource := None\<rparr>))
   \<and> (textures ext sid = Some tex \<and> sources ext sid = Some vs
       \<and> (width (mpegTextureInfo tex) = 0 \<or> height (mpegTextureInfo tex) = 0) \<longrightarrow>
      (\<exists>pl'. connectVideoTexture_B ext sid pl = Threw TargetDimensionsNotFound pl'
             \<and> listeners pl' = listeners pl))"
  by (simp add: connectVideoTexture_A_def connectVideoTexture_B_def
      returns_def state_of_def on_videoFrame_def Let_def)

theorem connectVideoTexture_checks_ids_only_witness:
  "textures one_texture 0 = Some \<lparr>mpegTextureInfo = small_info\<rparr>
   \<and> sources one_texture 0 = Some one_source
   \<and> \<not> isInitialized (AVPipeline None)
   \<and> returns (connectVideoTexture_A one_texture 0 (AVPipeline None))
   \<and> videoSources (state_of (connectVideoTexture_A one_texture 0 (AVPipeline None))) 0 = Some one_source
   \<and> listeners (state_of (connectVideoTexture_A one_texture 0 (AVPipeline None)))
        = [FrameHandler 0 small_info]"
proof -
  have h: "textures one_texture 0 = Some \<lparr>mpegTextureInfo = small_info\<rparr>
     \<and> sources one_texture 0 = Some one_source"
    by (simp add: one_texture_def)
  have n: "\<not> isInitialized (AVPipeline None)" "listeners (AVPipeline None) = []"
    by (simp_all add: AVPipeline_def)
  show ?thesis
    using connectVideoTexture_checks_ids_only [of one_texture 0 "\<lparr>mpegTextureInfo = small_info\<rparr>"
        one_source "AVPipeline None"] h n
    by simp
qed

section \<open>Dispose\<close>

lemma stopVideoProcessing_flat:
  "stopVideoProcessing p =
     p\<lparr>videoProcessingInterval := None,
       effects := effects p @ (if videoProcessingInterval p = None then [] else [ClearInterval])\<rparr>"
  by (cases p) (simp add: stopVideoProcessing_def split: option.splits)

lemma reset_dashPlayer_flat:
  "(case dashPlayer p of None \<Rightarrow> p
    | Some d \<Rightarrow> p\<lparr>dashPlayer := None, effects := effects p @ [DashReset]\<rparr>) =
     p\<lparr>dashPlayer := None,
       effects := effects p @ (if dashPlayer p = None then [] else [DashReset])\<rparr>"
  by (cases p) (simp split: option.splits)

lemma remove_videoElement_flat:
  "(case videoElement p of None \<Rightarrow> p
    | Some v \<Rightarrow> p\<lparr>videoElement := None, effects := effects p @ [VideoRemove]\<rparr>) =
     p\<lparr>videoElement := None,
       effects := effects p @ (if videoElement p = None then [] else [VideoRemove])\<rparr>"
  by (cases p) (simp split: option.splits)

lemma close_audioContext_flat:
  "(case audioContext p of None \<Rightarrow> p
    | Some a \<Rightarrow> p\<lparr>audioContext := None, effects := effects p @ [AudioClose]\<rparr>) =
     p\<lparr>audioContext := None,
       effects := effects p @ (if audioContext p = None then [] else [AudioClose])\<rparr>"
  by (cases p) (simp split: option.splits)

lemma clear_videoDestination_flat:
  "(case videoDestination p of None \<Rightarrow> p
    | Some vd \<Rightarrow> p\<lparr>videoDestination :=
        Some \<lparr>canvas = None, context2d = None, texture_slot = None\<rparr>\<rparr>) =
     p\<lparr>videoDestination :=
        map_option (\<lambda>vd. \<lparr>canvas = None, context2d = None, texture_slot = None\<rparr>)
          (videoDestination p)\<rparr>"
  by (cases p) (simp split: option.splits)

lemma remove_playOverlay_flat:
  "(case playOverlay p of None \<Rightarrow> p
    | Some h \<Rightarrow> p\<lparr>playOverlay := None, effects := effects p @ [OverlayRemove]\<rparr>) =
     p\<lparr>playOverlay := None,
       effects := effects p @ (if playOverlay p = None then [] else [OverlayRemove])\<rparr>"
  by (cases p) (simp split: option.splits)

lemma clear_playButton_flat:
  "(case playButton p of None \<Rightarrow> p | Some b \<Rightarrow> p\<lparr>playButton := None\<rparr>) = p\<lparr>playButton := None\<rparr>"
  by (cases p) (simp split: option.splits)

lemmas dispose_flat = stopVideoProcessing_flat reset_dashPlayer_flat remove_videoElement_flat
  close_audioContext_flat clear_videoDestination_flat remove_playOverlay_flat clear_playButton_flat

lemma dispose_fields:
  "videoProcessingInterval (dispose pl) = None \<and> dashPlayer (dispose pl) = None
   \<and> videoElement (dispose pl) = None \<and> audioContext (dispose pl) = None
   \<and> playOverlay (dispose pl) = None \<and> playButton (dispose pl) = None
   \<and> \<not> isInitialized (dispose pl)
   \<and> videoDestination (dispose pl) =
        map_option (\<lambda>vd. \<lparr>canvas = None, context2d = None, texture_slot = None\<rparr>) (videoDestination pl)"
  by (simp add: dispose_def Let_def dispose_flat)

lemma dispose_effects:
  "effects (dispose pl) = effects pl
     @ (if videoProcessingInterval pl = None then [] else [ClearInterval])
     @ (if dashPlayer pl = None then [] else [DashReset])
     @ (if videoElement pl = None then [] else [VideoRemove])
     @ (if audioContext pl = None then [] else [AudioClose])
     @ (if playOverlay pl = None then [] else [OverlayRemove])"
  by (simp add: dispose_def Let_def dispose_flat)

lemma dispose_of_disposed:
  assumes "videoProcessingInterval pl = None" and "dashPlayer pl = None" and "videoElement pl = None"
    and "audioContext pl = None" and "playOverlay pl = None" and "playButton pl = None"
    and "\<not> isInitialized pl"
    and "videoDestination pl = None \<or>
         videoDestination pl = Some \<lparr>canvas = None, context2d = None, texture_slot = None\<rparr>"
  shows "dispose pl = pl"
  using assms by (cases pl) (auto simp add: dispose_def stopVideoProcessing_def Let_def)

lemma dispose_idempotent: "dispose (dispose pl) = dispose pl"
proof (rule dispose_of_disposed)
  show "videoDestination (dispose pl) = None \<or>
         videoDestination (dispose pl) = Some \<lparr>canvas = None, context2d = None, texture_slot = None\<rparr>"
    by (cases "videoDestination pl") (simp_all add: dispose_fields)
qed (simp_all add: dispose_fields)

lemma dispose_closed:
  "dispose pl =
     pl\<lparr>videoProcessingInterval := None, dashPlayer := None, videoElement := None,
        audioContext := None,
        videoDestination :=
          map_option (\<lambda>vd. \<lparr>canvas = None, context2d = None, texture_slot = None\<rparr>)
            (videoDestination pl),
        playOverlay := None, playButton := None, isInitialized := False,
        effects := effects pl
          @ (if videoProcessingInterval pl = None then [] else [ClearInterval])
          @ (if dashPlayer pl = None then [] else [DashReset])
          @ (if videoElement pl = None then [] else [VideoRemove])
          @ (if audioContext pl = None then [] else [AudioClose])
          @ (if playOverlay pl = None then [] else [OverlayRemove])\<rparr>"
  by (cases pl) (simp add: dispose_def Let_def dispose_flat)

lemma connectVideoTexture_B_keeps:
  "videoElement (state_of (connectVideoTexture_B ext sid pl)) = videoElement pl
   \<and> videoProcessingInterval (state_of (connectVideoTexture_B ext sid pl)) = videoProcessingInterval pl"
  by (simp add: connectVideoTexture_B_def state_of_def on_videoFrame_def Let_def
      split: option.splits)

lemma step_B_without_video:
  assumes "videoElement pl = None" and "videoProcessingInterval pl = None" and "\<not> is_Initialize a"
  shows "fst (step_B draw interp a pl) = None
         \<and> videoElement (snd (step_B draw interp a pl)) = None
         \<and> videoProcessingInterval (snd (step_B draw interp a pl)) = None"
proof (cases a)
  case (Initialize pg c)
  then show ?thesis using assms by (simp add: is_Initialize_def)
next
  case Dispose
  then show ?thesis by (simp add: step_B_def dispose_fields)
next
  case (Play allowed)
  then show ?thesis using assms by (simp add: step_B_def play_B_def state_of_def)
next
  case Pause
  then show ?thesis using assms by (simp add: step_B_def pause_B_def)
next
  case (Seek t)
  then show ?thesis using assms by (simp add: step_B_def seek_def)
next
  case (ConnectVideoTexture ext sid)
  then show ?thesis using assms by (simp add: step_B_def connectVideoTexture_B_keeps)
next
  case (VideoEvent e)
  then show ?thesis using assms
    by (cases e) (simp_all add: step_B_def startVideoProcessing_B_def stopVideoProcessing_def state_of_def)
next
  case TimerFires
  then show ?thesis using assms by (simp add: step_B_def)
next
  case Capture
  then show ?thesis using assms by (simp add: step_B_def processVideoFrame_B_def skipped_def)
next
  case (Media v)
  then show ?thesis using assms by (simp add: step_B_def)
qed

lemma run_B_without_video:
  "videoElement pl = None \<Longrightarrow> videoProcessingInterval pl = None \<Longrightarrow>
   \<forall>a\<in>set acts. \<not> is_Initialize a \<Longrightarrow>
   fst (run_B draw interp acts pl) = []"
proof (induction acts arbitrary: pl)
  case Nil
  then show ?case by simp
next
  case (Cons a acts)
  have na: "\<not> is_Initialize a" using Cons.prems(3) by simp
  have s: "fst (step_B draw interp a pl) = None
         \<and> videoElement (snd (step_B draw interp a pl)) = None
         \<and> videoProcessingInterval (snd (step_B draw interp a pl)) = None"
    using Cons.prems(1,2) na by (rule step_B_without_video)
  have r: "\<forall>a\<in>set acts. \<not> is_Initialize a" using Cons.prems(3) by simp
  obtain f pl1 where st: "step_B draw interp a pl = (f, pl1)"
    by (cases "step_B draw interp a pl") auto
  have f: "f = None" and v: "videoElement pl1 = None" and t: "videoProcessingInterval pl1 = None"
    using s st by simp_all
  have "fst (run_B draw interp acts pl1) = []"
    using v t r by (rule Cons.IH)
  then show ?case using st f by (cases "run_B draw interp acts pl1") simp
qed

text \<open>
  Against C9 as stated. \<^verbatim>\<open>dispose\<close> leaves a pipeline that was never initialised as
  it was: the code has no state \<^verbatim>\<open>Disposed\<close> apart from the one a new pipeline is in.
  So after \<^verbatim>\<open>dispose\<close> the pipeline can be initialised again, and a session on it emits a
  frame as it does on a new pipeline.
\<close>

theorem frames_after_dispose_counterexample:
  "dispose (AVPipeline None) = AVPipeline None
   \<and> map width (fst (run_B solid flat (Dispose # session) (AVPipeline None))) = [640]
   \<and> map width (fst (run_B solid flat (session @ Dispose # session) (AVPipeline None))) = [640, 640]"
  by (simp add: session_def step_B_def dispose_closed initialize_B_def
      play_B_def startVideoProcessing_B_def processVideoFrame_B_def convertAndEmit_B_def
      getImageData_def emit_videoFrame_def state_of_def cooperative_page_def loaded_video_def
      new_video_def AVPipeline_def defaultRequirements_def strict_neq_def new_mat_def
      delete_mat_def Let_def)

text \<open>
  C9, amended. From every state \<^verbatim>\<open>dispose\<close> clears the timer, gives up the video
  element, the streaming player and the audio context and sets \<^verbatim>\<open>isInitialized\<close> to
  false; a timer that ran is stopped with \<^verbatim>\<open>clearInterval\<close>, a streaming player that
  was there is reset, a video element that was there is removed, an audio context that was
  there is closed, an overlay that was there is removed; these calls are made in this
  order, each at most once, and \<^verbatim>\<open>dispose\<close> makes no other call. As long as
  \<^verbatim>\<open>initialize\<close> is not called again, nothing that happens to the pipeline emits a
  frame. A second \<^verbatim>\<open>dispose\<close> changes nothing.
\<close>

theorem dispose_stops_the_pipeline:
  "videoProcessingInterval (dispose pl) = None
   \<and> videoElement (dispose pl) = None
   \<and> audioContext (dispose pl) = None
   \<and> dashPlayer (dispose pl) = None
   \<and> \<not> isInitialized (dispose pl)
   \<and> (videoProcessingInterval pl \<noteq> None \<longrightarrow> ClearInterval \<in> set (effects (dispose pl)))
   \<and> (dashPlayer pl \<noteq> None \<longrightarrow> DashReset \<in> set (effects (dispose pl)))
   \<and> (videoElement pl \<noteq> None \<longrightarrow> VideoRemove \<in> set (effects (dispose pl)))
   \<and> (audioContext pl \<noteq> None \<longrightarrow> AudioClose \<in> set (effects (dispose pl)))
   \<and> (playOverlay pl \<noteq> None \<longrightarrow> OverlayRemove \<in> set (effects (dispose pl)))
   \<and> effects (dispose pl) = effects pl
        @ (if videoProcessingInterval pl = None then [] else [ClearInterval])
        @ (if dashPlayer pl = None then [] else [DashReset])
        @ (if videoElement pl = None then [] else [VideoRemove])
        @ (if audioContext pl = None then [] else [AudioClose])
        @ (if playOverlay pl = None then [] else [OverlayRemove])
   \<and> ((\<forall>a\<in>set acts. \<not> is_Initialize a) \<longrightarrow> fst (run_B draw interp acts (dispose pl)) = [])
   \<and> dispose (dispose pl) = dispose pl"
proof (intro conjI impI)
  show "effects (dispose pl) = effects pl
        @ (if videoProcessingInterval pl = None then [] else [ClearInterval])
        @ (if dashPlayer pl = None then [] else [DashReset])
        @ (if videoElement pl = None then [] else [VideoRemove])
        @ (if audioContext pl = None then [] else [AudioClose])
        @ (if playOverlay pl = None then [] else [OverlayRemove])"
    by (rule dispose_effects)
next
  assume "dashPlayer pl \<noteq> None"
  then obtain x where "dashPlayer pl = Some x" by blast
  then show "DashReset \<in> set (effects (dispose pl))" by (simp add: dispose_effects)
next
  assume "playOverlay pl \<noteq> None"
  then obtain x where "playOverlay pl = Some x" by blast
  then show "OverlayRemove \<in> set (effects (dispose pl))" by (simp add: dispose_effects)
next
  assume "\<forall>a\<in>set acts. \<not> is_Initialize a"
  then show "fst (run_B draw interp acts (dispose pl)) = []"
    by (intro run_B_without_video) (simp_all add: dispose_fields)
next
  show "dispose (dispose pl) = dispose pl" by (rule dispose_idempotent)
next
  assume "videoProcessingInterval pl \<noteq> None"
  then obtain x where "videoProcessingInterval pl = Some x" by blast
  then show "ClearInterval \<in> set (effects (dispose pl))" by (simp add: dispose_effects)
next
  assume "videoElement pl \<noteq> None"
  then obtain x where "videoElement pl = Some x" by blast
  then show "VideoRemove \<in> set (effects (dispose pl))" by (simp add: dispose_effects)
next
  assume "audioContext pl \<noteq> None"
  then obtain x where "audioContext pl = Some x" by blast
  then show "AudioClose \<in> set (effects (dispose pl))" by (simp add: dispose_effects)
qed (simp_all add: dispose_fields)

text \<open>
  A session ends with the timer running and the video playing; \<^verbatim>\<open>dispose\<close> then makes
  the five calls, and the events and ticks that follow emit nothing.
\<close>

theorem dispose_stops_the_pipeline_witness:
  "videoProcessingInterval (snd (run_B solid flat session (AVPipeline None))) = Some (PlainInterval 1000)
   \<and> map_option paused (videoElement (snd (run_B solid flat session (AVPipeline None)))) = Some False
   \<and> audioContext (snd (run_B solid flat session (AVPipeline None))) = Some ()
   \<and> dashPlayer (snd (run_B solid flat session (AVPipeline None))) = Some ()
   \<and> effects (dispose (snd (run_B solid flat session (AVPipeline None))))
        = [ClearInterval, DashReset, VideoRemove, AudioClose, OverlayRemove]
   \<and> fst (run_B solid flat [VideoEvent EvPlay, TimerFires, Play True, Capture]
             (dispose (snd (run_B solid flat session (AVPipeline None))))) = []"
proof -
  let ?pl = "snd (run_B solid flat session (AVPipeline None))"
  have s: "videoProcessingInterval ?pl = Some (PlainInterval 1000)
      \<and> map_option paused (videoElement ?pl) = Some False
      \<and> audioContext ?pl = Some ()
      \<and> dashPlayer ?pl = Some () \<and> playOverlay ?pl = Some True \<and> effects ?pl = []"
    by (simp add: session_def step_B_def initialize_B_def
      play_B_def startVideoProcessing_B_def processVideoFrame_B_def convertAndEmit_B_def
      getImageData_def emit_videoFrame_def state_of_def cooperative_page_def loaded_video_def
      new_video_def AVPipeline_def defaultRequirements_def strict_neq_def new_mat_def
      delete_mat_def Let_def)
  have e: "effects (dispose ?pl) = [ClearInterval, DashReset, VideoRemove, AudioClose, OverlayRemove]"
    using s by (auto simp add: dispose_effects)
  have r: "DashReset \<in> set (effects (dispose ?pl))" using e by simp
  have n: "\<forall>a\<in>set [VideoEvent EvPlay, TimerFires, Play True, Capture]. \<not> is_Initialize a"
    by (simp add: is_Initialize_def)
  have "fst (run_B solid flat [VideoEvent EvPlay, TimerFires, Play True, Capture] (dispose ?pl)) = []"
    using dispose_stops_the_pipeline [of ?pl "[VideoEvent EvPlay, TimerFires, Play True, Capture]"
        solid flat] n
    by blast
  then show ?thesis using s e by simp
qed

section \<open>Stop\<close>




end
